theory Spec2Isabelle
  imports Main "HOL-Library.Monad_Syntax" "HOL-Library.Multiset"
begin

section \<open>Data model (internal/scanner/scanner.go)\<close>

text \<open>
  Go's \<^verbatim>\<open>int\<close> is modelled as \<^typ>\<open>int\<close>: the scanner never does arithmetic on ports, it
  only compares them, so no wrap-around can occur.  Go strings are byte sequences, as
  \<^typ>\<open>string\<close> is.
\<close>

record PortBinding =
  HostPort :: int
  ContainerPort :: int
  Protocol :: string
  HostIP :: string
  Service :: string
  File :: string
  Original :: string

record Issue =
  Severity :: string
  Type :: string
  Port :: int
  Description :: string
  Bindings :: "PortBinding list"

text \<open>
  \<^verbatim>\<open>PortMap map[int][]PortBinding\<close> is a partial map; a key is present exactly when
  something was appended under it.
\<close>

record Result =
  Path :: string
  ComposeFiles :: "string list"
  PortBindings :: "PortBinding list"
  PortMap :: "int \<rightharpoonup> PortBinding list"
  Issues :: "Issue list"

section \<open>Library functions the scanner calls\<close>

definition is_digit :: "char \<Rightarrow> bool" where
  "is_digit c = (c \<in> set ''0123456789'')"

definition digit_val :: "char \<Rightarrow> int" where
  "digit_val c = of_char c - 48"

text \<open>The value of a string of decimal digits, most significant digit first.\<close>

definition dec_val :: "string \<Rightarrow> int" where
  "dec_val s = foldl (\<lambda>acc c. 10 * acc + digit_val c) 0 s"

text \<open>
  \<^verbatim>\<open>strconv.Atoi\<close> on a 64-bit platform, with the error result dropped as every caller
  here does (\<^verbatim>\<open>n, _ := strconv.Atoi(s)\<close>): a syntax error gives 0, a value out of range
  gives the nearest bound of the signed 64-bit range.
\<close>

definition atoi_digits :: "bool \<Rightarrow> string \<Rightarrow> int" where
  "atoi_digits neg ds =
     (if ds = [] \<or> \<not> list_all is_digit ds then 0
      else if neg then (if dec_val ds > 2 ^ 63 then - (2 ^ 63) else - dec_val ds)
      else (if dec_val ds \<ge> 2 ^ 63 then 2 ^ 63 - 1 else dec_val ds))"

definition Atoi :: "string \<Rightarrow> int" where
  "Atoi s =
     (case s of
        [] \<Rightarrow> 0
      | c # cs \<Rightarrow>
          if c = CHR ''-'' then atoi_digits True cs
          else if c = CHR ''+'' then atoi_digits False cs
          else atoi_digits False s)"

text \<open>\<^verbatim>\<open>fmt.Sprintf("%d", n)\<close>.\<close>

function dec :: "int \<Rightarrow> string" where
  "dec n =
     (if n < 10 then [char_of (48 + n)]
      else dec (n div 10) @ [char_of (48 + n mod 10)])"
  by pat_completeness auto
termination
  by (relation "measure nat") auto

declare dec.simps [simp del]

definition itoa :: "int \<Rightarrow> string" where
  "itoa i = (if i < 0 then CHR ''-'' # dec (- i) else dec i)"

section \<open>The port regular expression\<close>

text \<open>
  \<^verbatim>\<open>^(?:(\d{1,3}\.\d{1,3}\.\d{1,3}\.\d{1,3}):)?(\d+)(?::(\d+))?(?:/(tcp|udp))?$\<close>

  Every repetition in it is of digits and is followed by a character that is not a digit
  (or by the end of the text), so a match, when there is one, takes each maximal run of
  digits.  \<open>octet\<close> is \<^verbatim>\<open>\d{1,3}\<close> followed by something that is not a digit.
\<close>

definition octet :: "string \<Rightarrow> (string \<times> string) option" where
  "octet s =
     (let d = takeWhile is_digit s
      in if 1 \<le> length d \<and> length d \<le> 3 then Some (d, dropWhile is_digit s) else None)"

definition expect :: "char \<Rightarrow> string \<Rightarrow> string option" where
  "expect c s = (case s of [] \<Rightarrow> None | x # xs \<Rightarrow> if x = c then Some xs else None)"

text \<open>The optional group \<^verbatim>\<open>(?:(\d{1,3}\.\d{1,3}\.\d{1,3}\.\d{1,3}):)\<close>: the address and the rest.\<close>

definition matchIP :: "string \<Rightarrow> (string \<times> string) option" where
  "matchIP s =
     do {
       (a, s1) \<leftarrow> octet s;
       s2 \<leftarrow> expect (CHR ''.'') s1;
       (b, s3) \<leftarrow> octet s2;
       s4 \<leftarrow> expect (CHR ''.'') s3;
       (c, s5) \<leftarrow> octet s4;
       s6 \<leftarrow> expect (CHR ''.'') s5;
       (d, s7) \<leftarrow> octet s6;
       s8 \<leftarrow> expect (CHR '':'') s7;
       Some (a @ ''.'' @ b @ ''.'' @ c @ ''.'' @ d, s8)
     }"

text \<open>
  \<^verbatim>\<open>(\d+)(?::(\d+))?(?:/(tcp|udp))?$\<close>: groups 2, 3 and 4.  A group that takes no part in
  the match is the empty string in \<^verbatim>\<open>FindStringSubmatch\<close>.
\<close>

definition matchTail :: "string \<Rightarrow> (string \<times> string \<times> string) option" where
  "matchTail s =
     (let p = takeWhile is_digit s; r = dropWhile is_digit s
      in if p = [] then None
         else
           let (c, r2) =
                 (case r of
                    [] \<Rightarrow> ([], r)
                  | x # t \<Rightarrow>
                      if x = CHR '':'' \<and> takeWhile is_digit t \<noteq> []
                      then (takeWhile is_digit t, dropWhile is_digit t)
                      else ([], r))
           in if r2 = [] then Some (p, c, [])
              else if r2 = ''/tcp'' then Some (p, c, ''tcp'')
              else if r2 = ''/udp'' then Some (p, c, ''udp'')
              else None)"

text \<open>
  \<^verbatim>\<open>portRegex.FindStringSubmatch\<close>: groups 1 to 4, or \<open>None\<close> for \<^verbatim>\<open>nil\<close>.  The address
  group is tried first; without it the text is matched from its start.
\<close>

definition portRegex :: "string \<Rightarrow> (string \<times> string \<times> string \<times> string) option" where
  "portRegex s =
     (case (case matchIP s of
              None \<Rightarrow> None
            | Some (ip, rest) \<Rightarrow> map_option (\<lambda>t. (ip, t)) (matchTail rest)) of
        Some m \<Rightarrow> Some m
      | None \<Rightarrow> map_option (\<lambda>t. ([], t)) (matchTail s))"

section \<open>parsePort\<close>

text \<open>
  A value of a \<^verbatim>\<open>ports\<close> list as \<^verbatim>\<open>yaml.v3\<close> decodes it into \<^verbatim>\<open>interface{}\<close>: a string,
  an \<^verbatim>\<open>int\<close>, a mapping with string keys, or anything else.  Inside a mapping only the
  dynamic types \<^verbatim>\<open>int\<close> and \<^verbatim>\<open>string\<close> are looked at.
\<close>

datatype yaml = YInt int | YString string | YOther

datatype port_value =
    PString string
  | PInt int
  | PMap "string \<rightharpoonup> yaml"
  | POther

definition as_int :: "yaml option \<Rightarrow> int option" where
  "as_int v = (case v of Some (YInt i) \<Rightarrow> Some i | _ \<Rightarrow> None)"

definition as_string :: "yaml option \<Rightarrow> string option" where
  "as_string v = (case v of Some (YString s) \<Rightarrow> Some s | _ \<Rightarrow> None)"

text \<open>The \<^verbatim>\<open>switch\<close> of \<^verbatim>\<open>parsePort\<close>: the binding as it stands before the final test, or \<^verbatim>\<open>nil\<close>.\<close>

definition parsePort_fields :: "port_value \<Rightarrow> string \<Rightarrow> string \<Rightarrow> PortBinding option" where
  "parsePort_fields port service file =
     (let binding = \<lparr>HostPort = 0, ContainerPort = 0, Protocol = ''tcp'', HostIP = [],
                      Service = service, File = file, Original = []\<rparr>
      in case port of
           PString v \<Rightarrow>
             (case portRegex v of
                None \<Rightarrow> None
              | Some (ip, portStr, containerStr, proto) \<Rightarrow>
                  let hostPort = Atoi portStr;
                      b1 = binding\<lparr>Original := v, HostIP := ip\<rparr>;
                      b2 = (if containerStr \<noteq> []
                            then b1\<lparr>HostPort := hostPort, ContainerPort := Atoi containerStr\<rparr>
                            else b1\<lparr>HostPort := hostPort, ContainerPort := hostPort\<rparr>)
                  in Some (if proto \<noteq> [] then b2\<lparr>Protocol := proto\<rparr> else b2))
         | PInt v \<Rightarrow>
             Some (binding\<lparr>Original := itoa v, HostPort := v, ContainerPort := v\<rparr>)
         | PMap v \<Rightarrow>
             let b1 = (case as_int (v ''target'') of
                         Some target \<Rightarrow> binding\<lparr>ContainerPort := target\<rparr>
                       | None \<Rightarrow> binding);
                 b2 = (case as_int (v ''published'') of
                         Some published \<Rightarrow> b1\<lparr>HostPort := published\<rparr>
                       | None \<Rightarrow>
                           (case as_string (v ''published'') of
                              Some published \<Rightarrow> b1\<lparr>HostPort := Atoi published\<rparr>
                            | None \<Rightarrow> b1));
                 b3 = (case as_string (v ''protocol'') of
                         Some protocol \<Rightarrow> b2\<lparr>Protocol := protocol\<rparr>
                       | None \<Rightarrow> b2);
                 b4 = (case as_string (v ''host_ip'') of
                         Some hostIP \<Rightarrow> b3\<lparr>HostIP := hostIP\<rparr>
                       | None \<Rightarrow> b3)
             in Some (b4\<lparr>Original := itoa (HostPort b4) @ '':'' @ itoa (ContainerPort b4)\<rparr>)
         | POther \<Rightarrow> None)"

definition parsePort :: "port_value \<Rightarrow> string \<Rightarrow> string \<Rightarrow> PortBinding option" where
  "parsePort port service file =
     (case parsePort_fields port service file of
        None \<Rightarrow> None
      | Some binding \<Rightarrow> if HostPort binding = 0 then None else Some binding)"

section \<open>parseComposeFile and Scan\<close>

text \<open>
  What reading and unmarshalling one compose file gives: \<^verbatim>\<open>os.ReadFile\<close> fails,
  \<^verbatim>\<open>yaml.Unmarshal\<close> fails (each with the text of its error), or the services with their
  \<^verbatim>\<open>ports\<close> lists.  \<^verbatim>\<open>compose.Services\<close> is a Go map, ranged over in no fixed order: the
  list holds the services in the order the \<^verbatim>\<open>range\<close> visits them.
\<close>

datatype file_content =
    ReadFails string
  | UnmarshalFails string
  | Services "(string \<times> port_value list) list"

definition add_binding :: "Result \<Rightarrow> PortBinding \<Rightarrow> Result" where
  "add_binding r binding =
     r\<lparr>PortBindings := PortBindings r @ [binding],
       PortMap := (PortMap r)(HostPort binding \<mapsto>
                    (case PortMap r (HostPort binding) of None \<Rightarrow> [] | Some bs \<Rightarrow> bs) @ [binding])\<rparr>"

fun service_ports :: "Result \<Rightarrow> string \<Rightarrow> string \<Rightarrow> port_value list \<Rightarrow> Result" where
  "service_ports r serviceName path [] = r"
| "service_ports r serviceName path (port # ports) =
     service_ports
       (case parsePort port serviceName path of
          None \<Rightarrow> r
        | Some binding \<Rightarrow> add_binding r binding)
       serviceName path ports"

fun services_loop :: "Result \<Rightarrow> string \<Rightarrow> (string \<times> port_value list) list \<Rightarrow> Result" where
  "services_loop r path [] = r"
| "services_loop r path ((serviceName, ports) # svcs) =
     services_loop (service_ports r serviceName path ports) path svcs"

text \<open>\<open>Inl\<close> is the error returned; the receiver is untouched then.\<close>

definition parseComposeFile :: "Result \<Rightarrow> string \<Rightarrow> file_content \<Rightarrow> string + Result" where
  "parseComposeFile r path content =
     (case content of
        ReadFails err \<Rightarrow> Inl err
      | UnmarshalFails err \<Rightarrow> Inl err
      | Services svcs \<Rightarrow> Inr (services_loop r path svcs))"

section \<open>analyze\<close>

definition wildcard :: "PortBinding \<Rightarrow> bool" where
  "wildcard b = (HostIP b = [] \<or> HostIP b = ''0.0.0.0'')"

definition collision_issue :: "int \<Rightarrow> PortBinding list \<Rightarrow> Issue" where
  "collision_issue port bindings =
     \<lparr>Severity = ''error'', Type = ''collision'', Port = port,
      Description = ''Port '' @ itoa port @ '' bound by multiple services'',
      Bindings = bindings\<rparr>"

definition potential_issue :: "int \<Rightarrow> PortBinding list \<Rightarrow> Issue" where
  "potential_issue port bindings =
     \<lparr>Severity = ''warning'', Type = ''potential_collision'', Port = port,
      Description = ''Port '' @ itoa port @ '' bound multiple times with specific IPs'',
      Bindings = bindings\<rparr>"

definition privileged_issue :: "PortBinding \<Rightarrow> Issue" where
  "privileged_issue binding =
     \<lparr>Severity = ''warning'', Type = ''privileged'', Port = HostPort binding,
      Description = ''Port '' @ itoa (HostPort binding) @ '' is privileged (requires root/sudo)'',
      Bindings = [binding]\<rparr>"

definition common_issue :: "PortBinding \<Rightarrow> string \<Rightarrow> Issue" where
  "common_issue binding svc =
     \<lparr>Severity = ''info'', Type = ''common_port'', Port = HostPort binding,
      Description = ''Port '' @ itoa (HostPort binding) @ '' is commonly used by '' @ svc,
      Bindings = [binding]\<rparr>"

text \<open>The body of the first loop for one key of \<^verbatim>\<open>r.PortMap\<close>: the issues it appends.\<close>

definition group_issues :: "int \<Rightarrow> PortBinding list \<Rightarrow> Issue list" where
  "group_issues port bindings =
     (if length bindings > 1
      then
        let directCollisions = filter wildcard bindings;
            potentialCollisions = filter (\<lambda>b. \<not> wildcard b) bindings
        in if length directCollisions > 1 \<or>
              (length directCollisions > 0 \<and> length potentialCollisions > 0)
           then [collision_issue port bindings]
           else if length potentialCollisions > 1
           then [potential_issue port bindings]
           else []
      else [])"

text \<open>
  \<^verbatim>\<open>for port, bindings := range r.PortMap\<close>: Go visits the keys of a map in an order it does
  not specify, so the order is an argument, \<open>ks\<close>.  It is a visit order of the map when
  it lists every key once (\<open>visit_order\<close>).
\<close>

definition visit_order :: "'k list \<Rightarrow> ('k \<rightharpoonup> 'v) \<Rightarrow> bool" where
  "visit_order ks m = (distinct ks \<and> set ks = dom m)"

fun collision_loop :: "Issue list \<Rightarrow> (int \<rightharpoonup> PortBinding list) \<Rightarrow> int list \<Rightarrow> Issue list" where
  "collision_loop issues pm [] = issues"
| "collision_loop issues pm (port # ks) =
     collision_loop
       (case pm port of None \<Rightarrow> issues | Some bindings \<Rightarrow> issues @ group_issues port bindings)
       pm ks"

fun privileged_loop :: "Issue list \<Rightarrow> PortBinding list \<Rightarrow> Issue list" where
  "privileged_loop issues [] = issues"
| "privileged_loop issues (binding # bs) =
     privileged_loop
       (if HostPort binding > 0 \<and> HostPort binding < 1024
        then issues @ [privileged_issue binding] else issues)
       bs"

definition commonPorts :: "int \<rightharpoonup> string" where
  "commonPorts =
     map_of [(22, ''SSH''), (25, ''SMTP''), (53, ''DNS''), (80, ''HTTP''), (443, ''HTTPS''),
             (3306, ''MySQL''), (5432, ''PostgreSQL''), (6379, ''Redis''),
             (8080, ''HTTP Alternate''), (27017, ''MongoDB'')]"

definition alreadyWarned :: "Issue list \<Rightarrow> int \<Rightarrow> bool" where
  "alreadyWarned issues port = list_ex (\<lambda>issue. Port issue = port \<and> Type issue = ''collision'') issues"

fun common_loop :: "Issue list \<Rightarrow> PortBinding list \<Rightarrow> Issue list" where
  "common_loop issues [] = issues"
| "common_loop issues (binding # bs) =
     common_loop
       (case commonPorts (HostPort binding) of
          None \<Rightarrow> issues
        | Some svc \<Rightarrow>
            if wildcard binding
            then (if \<not> alreadyWarned issues (HostPort binding)
                  then issues @ [common_issue binding svc] else issues)
            else issues)
       bs"

text \<open>A key that is not in the \<^verbatim>\<open>severityOrder\<close> map reads as 0.\<close>

definition severityOrder :: "string \<Rightarrow> int" where
  "severityOrder s =
     (case map_of [(''error'', 0), (''warning'', 1), (''info'', 2)] s of
        None \<Rightarrow> 0 | Some n \<Rightarrow> n)"

definition issue_less :: "Issue \<Rightarrow> Issue \<Rightarrow> bool" where
  "issue_less a b =
     (if severityOrder (Severity a) \<noteq> severityOrder (Severity b)
      then severityOrder (Severity a) < severityOrder (Severity b)
      else Port a < Port b)"

text \<open>
  \<^verbatim>\<open>sort.Slice\<close>, as an insertion sort with the caller's \<^verbatim>\<open>less\<close> (what Go runs on a slice
  of at most 12 elements).  Go does not promise the order of elements that \<^verbatim>\<open>less\<close> does
  not separate; the model keeps them in their order.
\<close>

fun insert_less :: "('a \<Rightarrow> 'a \<Rightarrow> bool) \<Rightarrow> 'a \<Rightarrow> 'a list \<Rightarrow> 'a list" where
  "insert_less lt x [] = [x]"
| "insert_less lt x (y # ys) =
     (if lt y x then y # insert_less lt x ys else x # y # ys)"

definition sort_Slice :: "('a \<Rightarrow> 'a \<Rightarrow> bool) \<Rightarrow> 'a list \<Rightarrow> 'a list" where
  "sort_Slice lt xs = foldr (insert_less lt) xs []"

text \<open>The issue list as the three loops leave it, before the sort.\<close>

definition collect_issues :: "int list \<Rightarrow> Result \<Rightarrow> Issue list" where
  "collect_issues ks r =
     common_loop
       (privileged_loop (collision_loop (Issues r) (PortMap r) ks) (PortBindings r))
       (PortBindings r)"

definition analyze :: "int list \<Rightarrow> Result \<Rightarrow> Result" where
  "analyze ks r = r\<lparr>Issues := sort_Slice issue_less (collect_issues ks r)\<rparr>"

section \<open>Scan\<close>

definition parse_error_issue :: "string \<Rightarrow> string \<Rightarrow> Issue" where
  "parse_error_issue file err =
     \<lparr>Severity = ''warning'', Type = ''parse_error'', Port = 0,
      Description = ''Failed to parse '' @ file @ '': '' @ err,
      Bindings = []\<rparr>"

fun parse_files :: "Result \<Rightarrow> (string \<times> file_content) list \<Rightarrow> Result" where
  "parse_files r [] = r"
| "parse_files r ((file, content) # files) =
     parse_files
       (case parseComposeFile r file content of
          Inl err \<Rightarrow> r\<lparr>Issues := Issues r @ [parse_error_issue file err]\<rparr>
        | Inr r' \<Rightarrow> r')
       files"

text \<open>
  \<open>files\<close> is what the discovery found (\<^verbatim>\<open>r.ComposeFiles\<close>), each file with what reading
  it gives.  \<open>scanned\<close> is the receiver when \<^verbatim>\<open>r.analyze()\<close> is called.  The function
  returns \<^verbatim>\<open>(r, nil)\<close> on every path: \<open>Inr\<close>.
\<close>

definition scanned :: "string \<Rightarrow> (string \<times> file_content) list \<Rightarrow> Result" where
  "scanned basePath files =
     parse_files
       \<lparr>Path = basePath, ComposeFiles = map fst files, PortBindings = [],
        PortMap = Map.empty, Issues = []\<rparr>
       files"

definition Scan :: "string \<Rightarrow> (string \<times> file_content) list \<Rightarrow> int list \<Rightarrow> string + Result" where
  "Scan basePath files ks = Inr (analyze ks (scanned basePath files))"

section \<open>Profiles (package profiles)\<close>

text \<open>
  The records of package \<^verbatim>\<open>profiles\<close>.  Their field names repeat (\<^verbatim>\<open>Name\<close>, \<^verbatim>\<open>Port\<close>,
  \<^verbatim>\<open>Services\<close>, \<^verbatim>\<open>File\<close>) and repeat those of the scanner, so each carries a suffix for
  its record: \<open>_ps\<close> ProfileService, \<open>_p\<close> Profile, \<open>_c\<close> ProfilesConfig, \<open>_si\<close>
  ServiceInfo, \<open>_pc\<close> PortConflict.
\<close>

record ProfileService =
  Name_ps :: string
  Ports_ps :: "string list"
  EnvFiles_ps :: "string list"
  File_ps :: string

record Profile =
  Name_p :: string
  Services_p :: "ProfileService list"

record ProfilesConfig =
  Profiles_c :: "string \<rightharpoonup> Profile"
  Files_c :: "string list"

record ServiceInfo =
  Service_si :: string
  Profile_si :: string
  Port_si :: string

record PortConflict =
  Port_pc :: string
  Services_pc :: "ServiceInfo list"

text \<open>\<^verbatim>\<open>strings.Split(s, sep)\<close> for a separator of one byte: never the empty list.\<close>

fun Split :: "string \<Rightarrow> char \<Rightarrow> string list" where
  "Split [] sep = [[]]"
| "Split (x # xs) sep =
     (if x = sep then [] # Split xs sep
      else (case Split xs sep of [] \<Rightarrow> [[x]] | p # ps \<Rightarrow> (x # p) # ps))"

text \<open>\<^verbatim>\<open>strings.Split(s, "/")[0]\<close>.\<close>

definition before_slash :: "string \<Rightarrow> string" where
  "before_slash s = (case Split s (CHR ''/'') of [] \<Rightarrow> [] | p # ps \<Rightarrow> p)"

definition extractHostPort :: "string \<Rightarrow> string" where
  "extractHostPort portSpec =
     (case Split portSpec (CHR '':'') of
        [a] \<Rightarrow> before_slash a
      | [a, b] \<Rightarrow> before_slash a
      | [a, b, c] \<Rightarrow> before_slash b
      | _ \<Rightarrow> portSpec)"

text \<open>
  The end of \<^verbatim>\<open>parseComposeProfiles\<close>: a service goes to the profile \<^verbatim>\<open>default\<close> when its
  \<^verbatim>\<open>profiles\<close> list is empty, and to each profile it names otherwise, a profile being
  created when it is first named.  \<^verbatim>\<open>LoadProfiles\<close> starts from a configuration that has
  the profile \<^verbatim>\<open>default\<close>, so the profile is there whenever a service is added to it.
\<close>

definition empty_config :: ProfilesConfig where
  "empty_config =
     \<lparr>Profiles_c = [''default'' \<mapsto> \<lparr>Name_p = ''default'', Services_p = []\<rparr>], Files_c = []\<rparr>"

definition append_service :: "ProfilesConfig \<Rightarrow> string \<Rightarrow> ProfileService \<Rightarrow> ProfilesConfig" where
  "append_service config profileName ps =
     (let profile = (case Profiles_c config profileName of
                       None \<Rightarrow> \<lparr>Name_p = profileName, Services_p = []\<rparr>
                     | Some p \<Rightarrow> p)
      in config\<lparr>Profiles_c := (Profiles_c config)(profileName \<mapsto>
                    profile\<lparr>Services_p := Services_p profile @ [ps]\<rparr>)\<rparr>)"

definition add_service :: "ProfilesConfig \<Rightarrow> ProfileService \<Rightarrow> string list \<Rightarrow> ProfilesConfig" where
  "add_service config ps profiles =
     (if length profiles = 0 then append_service config ''default'' ps
      else foldl (\<lambda>cfg profileName. append_service cfg profileName ps) config profiles)"

text \<open>The three nested loops of \<^verbatim>\<open>DetectPortConflicts\<close> that fill \<^verbatim>\<open>portServices\<close>.\<close>

fun ports_loop ::
  "(string \<rightharpoonup> ServiceInfo list) \<Rightarrow> string \<Rightarrow> string \<Rightarrow> string list \<Rightarrow> (string \<rightharpoonup> ServiceInfo list)"
where
  "ports_loop portServices profileName svcName [] = portServices"
| "ports_loop portServices profileName svcName (port # ports) =
     ports_loop
       (let hostPort = extractHostPort port
        in if hostPort \<noteq> []
           then portServices(hostPort \<mapsto>
                  (case portServices hostPort of None \<Rightarrow> [] | Some ss \<Rightarrow> ss) @
                  [\<lparr>Service_si = svcName, Profile_si = profileName, Port_si = port\<rparr>])
           else portServices)
       profileName svcName ports"

fun profile_services_loop ::
  "(string \<rightharpoonup> ServiceInfo list) \<Rightarrow> string \<Rightarrow> ProfileService list \<Rightarrow> (string \<rightharpoonup> ServiceInfo list)"
where
  "profile_services_loop portServices profileName [] = portServices"
| "profile_services_loop portServices profileName (svc # svcs) =
     profile_services_loop
       (ports_loop portServices profileName (Name_ps svc) (Ports_ps svc))
       profileName svcs"

fun profiles_loop ::
  "(string \<rightharpoonup> ServiceInfo list) \<Rightarrow> ProfilesConfig \<Rightarrow> string list \<Rightarrow> (string \<rightharpoonup> ServiceInfo list)"
where
  "profiles_loop portServices c [] = portServices"
| "profiles_loop portServices c (profileName # profiles) =
     profiles_loop
       (case Profiles_c c profileName of
          None \<Rightarrow> portServices
        | Some profile \<Rightarrow> profile_services_loop portServices profileName (Services_p profile))
       c profiles"

definition portServices_of :: "ProfilesConfig \<Rightarrow> string list \<Rightarrow> (string \<rightharpoonup> ServiceInfo list)" where
  "portServices_of c activeProfiles = profiles_loop Map.empty c (''default'' # activeProfiles)"

fun conflicts_loop ::
  "PortConflict list \<Rightarrow> (string \<rightharpoonup> ServiceInfo list) \<Rightarrow> string list \<Rightarrow> PortConflict list"
where
  "conflicts_loop conflicts portServices [] = conflicts"
| "conflicts_loop conflicts portServices (port # ks) =
     conflicts_loop
       (case portServices port of
          None \<Rightarrow> conflicts
        | Some services \<Rightarrow>
            if length services > 1
            then conflicts @ [\<lparr>Port_pc = port, Services_pc = services\<rparr>]
            else conflicts)
       portServices ks"

text \<open>\<open>ks\<close> is the order in which \<^verbatim>\<open>range portServices\<close> visits the keys.\<close>

definition DetectPortConflicts :: "string list \<Rightarrow> ProfilesConfig \<Rightarrow> string list \<Rightarrow> PortConflict list" where
  "DetectPortConflicts ks c activeProfiles =
     conflicts_loop [] (portServices_of c activeProfiles) ks"

text \<open>
  \<^verbatim>\<open>runScan\<close> (cmd/scan.go) looks for profile conflicts only when \<^verbatim>\<open>--profile\<close> was given,
  and turns each conflict into an issue.  \<open>c\<close> is the configuration that \<^verbatim>\<open>LoadProfiles\<close>
  returned.
\<close>

definition profile_issue :: "PortConflict \<Rightarrow> Issue" where
  "profile_issue c =
     \<lparr>Severity = ''error'', Type = ''profile_collision'', Port = 0,
      Description = ''Profile conflict on port '' @ Port_pc c @ '': multiple services'',
      Bindings = []\<rparr>"

definition profile_issues :: "string list \<Rightarrow> ProfilesConfig \<Rightarrow> string list \<Rightarrow> Issue list" where
  "profile_issues ks c activeProfiles =
     (if length activeProfiles > 0
      then map profile_issue (DetectPortConflicts ks c activeProfiles)
      else [])"

section \<open>Auxiliary definitions for the proofs\<close>

text \<open>
  \<open>grouped\<close>: the port map holds, under each port, the bindings of that host port in the
  order of \<^verbatim>\<open>r.PortBindings\<close>, and has no other key.  \<open>only_parse_errors\<close>: the issues
  already in the receiver are \<^verbatim>\<open>parse_error\<close> issues, the only kind that \<^verbatim>\<open>Scan\<close> appends
  before it calls \<^verbatim>\<open>analyze\<close>.  \<open>parsed_state\<close> is what holds of the receiver at that call
  (lemma \<open>scanned_parsed\<close>).
\<close>

definition grouped :: "Result \<Rightarrow> bool" where
  "grouped r =
     (\<forall>p. PortMap r p =
        (if filter (\<lambda>b. HostPort b = p) (PortBindings r) = [] then None
         else Some (filter (\<lambda>b. HostPort b = p) (PortBindings r))))"

definition only_parse_errors :: "Result \<Rightarrow> bool" where
  "only_parse_errors r = list_all (\<lambda>i. Type i = ''parse_error'' \<and> Bindings i = []) (Issues r)"

definition parsed_state :: "Result \<Rightarrow> bool" where
  "parsed_state r =
     (grouped r \<and> list_all (\<lambda>b. HostPort b \<noteq> 0) (PortBindings r) \<and> only_parse_errors r)"

text \<open>What one round of the common-port loop appends, given the issues before the loop.\<close>

definition common_issues :: "Issue list \<Rightarrow> PortBinding \<Rightarrow> Issue list" where
  "common_issues issues b =
     (case commonPorts (HostPort b) of
        None \<Rightarrow> []
      | Some svc \<Rightarrow>
          if wildcard b \<and> \<not> alreadyWarned issues (HostPort b)
          then [common_issue b svc] else [])"

text \<open>The binding that both \<^verbatim>\<open>"8080:80"\<close> and its long form stand for.\<close>

definition binding_8080_80 :: "string \<Rightarrow> string \<Rightarrow> PortBinding" where
  "binding_8080_80 service file =
     \<lparr>HostPort = 8080, ContainerPort = 80, Protocol = ''tcp'', HostIP = [],
      Service = service, File = file, Original = ''8080:80''\<rparr>"

text \<open>
  Compose files for the examples: for each file its name and its services, each service
  with its \<^verbatim>\<open>ports\<close> list.  \<open>string_binding\<close> and \<open>proto_binding\<close> write down the bindings
  they parse to.
\<close>

definition grouping_example :: "(string \<times> file_content) list" where
  "grouping_example =
     [(''docker-compose.yml'',
       Services [(''web1'', [PString ''8080:80'', PString ''127.0.0.1:9000:9000'', PString ''3000'']),
                 (''web2'', [PString ''8080:80'', PString ''192.168.1.1:9000:9000''])])]"

definition string_binding :: "string \<Rightarrow> int \<Rightarrow> int \<Rightarrow> string \<Rightarrow> string \<Rightarrow> string \<Rightarrow> PortBinding" where
  "string_binding ip host container service file original =
     \<lparr>HostPort = host, ContainerPort = container, Protocol = ''tcp'', HostIP = ip,
      Service = service, File = file, Original = original\<rparr>"

definition same_address_example :: "(string \<times> file_content) list" where
  "same_address_example =
     [(''docker-compose.yml'',
       Services [(''a'', [PString ''127.0.0.1:8080:80'']),
                 (''b'', [PString ''127.0.0.1:8080:80''])])]"

definition tcp_udp_example :: "string \<Rightarrow> string \<Rightarrow> string \<Rightarrow> (string \<times> file_content) list" where
  "tcp_udp_example s1 s2 file =
     [(file, Services [(s1, [PString ''53:53/tcp'']), (s2, [PString ''53:53/udp''])])]"

definition privileged_example :: "(string \<times> file_content) list" where
  "privileged_example =
     [(''docker-compose.yml'', Services [(''web'', [PString ''80:80'', PString ''443:443''])])]"

definition shared_privileged_example :: "(string \<times> file_content) list" where
  "shared_privileged_example =
     [(''docker-compose.yml'',
       Services [(''web1'', [PString ''80:80'']), (''web2'', [PString ''80:8080''])])]"

definition proto_binding :: "string \<Rightarrow> string \<Rightarrow> string \<Rightarrow> string \<Rightarrow> PortBinding" where
  "proto_binding proto service file original =
     \<lparr>HostPort = 53, ContainerPort = 53, Protocol = proto, HostIP = [],
      Service = service, File = file, Original = original\<rparr>"

definition common_example :: "(string \<times> file_content) list" where
  "common_example =
     [(''docker-compose.yml'',
       Services [(''proxy'', [PString ''8080:80'']),
                 (''web1'', [PString ''80:80'']),
                 (''web2'', [PString ''80:8000'']),
                 (''db'', [PString ''127.0.0.1:5432:5432''])])]"

definition order_example :: "(string \<times> file_content) list" where
  "order_example =
     [(''docker-compose.yml'',
       Services [(''a'', [PString ''127.0.0.1:9000:9000'', PString ''80:80'']),
                 (''b'', [PString ''192.168.1.1:9000:9000'', PString ''80:8000''])])]"

definition rank :: "Issue \<Rightarrow> int" where
  "rank i = severityOrder (Severity i)"

text \<open>The bindings and the \<^verbatim>\<open>parse_error\<close> issues that a list of files contributes.\<close>

definition service_bindings :: "string \<Rightarrow> string \<Rightarrow> port_value list \<Rightarrow> PortBinding list" where
  "service_bindings path serviceName ports =
     concat (map (\<lambda>port. case parsePort port serviceName path of None \<Rightarrow> [] | Some b \<Rightarrow> [b]) ports)"

definition file_bindings :: "string \<times> file_content \<Rightarrow> PortBinding list" where
  "file_bindings fc =
     (case snd fc of
        Services svcs \<Rightarrow> concat (map (\<lambda>sp. service_bindings (fst fc) (fst sp) (snd sp)) svcs)
      | _ \<Rightarrow> [])"

definition file_errors :: "string \<times> file_content \<Rightarrow> Issue list" where
  "file_errors fc =
     (case snd fc of
        ReadFails err \<Rightarrow> [parse_error_issue (fst fc) err]
      | UnmarshalFails err \<Rightarrow> [parse_error_issue (fst fc) err]
      | Services svcs \<Rightarrow> [])"

definition zero_example :: "(string \<times> file_content) list" where
  "zero_example =
     [(''docker-compose.yml'',
       Services [(''a'', [PString ''0:80'', PString ''8080:80'']),
                 (''b'', [PInt 0, PString ''8080:80''])])]"

definition bad_file_example :: "(string \<times> file_content) list" where
  "bad_file_example =
     [(''compose.yml'', UnmarshalFails ''yaml: did not find expected key''),
      (''docker-compose.yml'',
       Services [(''web1'', [PString ''80:80'']),
                 (''web2'', [PString ''80:8000'']),
                 (''proxy'', [PString ''8080:80''])])]"

text \<open>
  The port declarations that \<^verbatim>\<open>DetectPortConflicts\<close> walks through, each with the host-port
  text taken from it and its \<^verbatim>\<open>ServiceInfo\<close>, in the order of the three loops.  A
  declaration is counted once for every time the loops reach it.
\<close>

definition port_claims :: "string \<Rightarrow> string \<Rightarrow> string list \<Rightarrow> (string \<times> ServiceInfo) list" where
  "port_claims profileName svcName ports =
     concat (map (\<lambda>port. if extractHostPort port \<noteq> []
                          then [(extractHostPort port,
                                 \<lparr>Service_si = svcName, Profile_si = profileName, Port_si = port\<rparr>)]
                          else []) ports)"

definition profile_claims :: "ProfilesConfig \<Rightarrow> string \<Rightarrow> (string \<times> ServiceInfo) list" where
  "profile_claims c profileName =
     (case Profiles_c c profileName of
        None \<Rightarrow> []
      | Some profile \<Rightarrow>
          concat (map (\<lambda>svc. port_claims profileName (Name_ps svc) (Ports_ps svc))
                    (Services_p profile)))"

definition active_claims :: "ProfilesConfig \<Rightarrow> string list \<Rightarrow> (string \<times> ServiceInfo) list" where
  "active_claims c activeProfiles = concat (map (profile_claims c) (''default'' # activeProfiles))"

definition claims_on :: "ProfilesConfig \<Rightarrow> string list \<Rightarrow> string \<Rightarrow> ServiceInfo list" where
  "claims_on c activeProfiles p =
     map snd (filter (\<lambda>e. fst e = p) (active_claims c activeProfiles))"

text \<open>The names of the active services that claim a host port, each once.\<close>

definition claiming_services :: "ProfilesConfig \<Rightarrow> string list \<Rightarrow> string \<Rightarrow> string list" where
  "claiming_services c activeProfiles p = remdups (map Service_si (claims_on c activeProfiles p))"

text \<open>A port map with further entries appended, key by key.\<close>

definition extend ::
  "(string \<rightharpoonup> ServiceInfo list) \<Rightarrow> (string \<times> ServiceInfo) list \<Rightarrow> (string \<rightharpoonup> ServiceInfo list)"
where
  "extend m es =
     (\<lambda>p. if map snd (filter (\<lambda>e. fst e = p) es) = [] then m p
          else Some ((case m p of None \<Rightarrow> [] | Some ss \<Rightarrow> ss) @
                     map snd (filter (\<lambda>e. fst e = p) es)))"

definition service_decl :: "string \<Rightarrow> string list \<Rightarrow> ProfileService" where
  "service_decl name ports =
     \<lparr>Name_ps = name, Ports_ps = ports, EnvFiles_ps = [], File_ps = ''docker-compose.yml''\<rparr>"

text \<open>\<^verbatim>\<open>serviceA\<close> under the profile \<^verbatim>\<open>dev\<close>, \<^verbatim>\<open>serviceB\<close> under no profile, both on host port 9090.\<close>

definition overlay_example :: ProfilesConfig where
  "overlay_example =
     add_service
       (add_service empty_config (service_decl ''serviceA'' [''9090:80'']) [''dev''])
       (service_decl ''serviceB'' [''9090:8080'']) []"

text \<open>One service, under no profile, that publishes port 53 for TCP and for UDP.\<close>

definition dns_example :: ProfilesConfig where
  "dns_example =
     add_service
       (add_service empty_config (service_decl ''serviceA'' [''9090:80'']) [''dev''])
       (service_decl ''dns'' [''53:53/tcp'', ''53:53/udp'']) []"

text \<open>One service with one port declaration, listed under the profiles \<^verbatim>\<open>dev\<close> and \<^verbatim>\<open>tools\<close>.\<close>

definition two_profiles_example :: ProfilesConfig where
  "two_profiles_example =
     add_service empty_config (service_decl ''web'' [''8080:80'']) [''dev'', ''tools'']"

section \<open>Facts about the parser\<close>

lemma parsePort_nonzero: "parsePort v s f = Some b \<Longrightarrow> HostPort b \<noteq> 0"
  by (auto simp: parsePort_def split: option.splits if_splits)

lemma add_binding_grouped: "grouped r \<Longrightarrow> grouped (add_binding r b)"
  by (auto simp: grouped_def add_binding_def)

lemma add_binding_parsed:
  "parsed_state r \<Longrightarrow> HostPort b \<noteq> 0 \<Longrightarrow> parsed_state (add_binding r b)"
  unfolding parsed_state_def using add_binding_grouped [of r b]
  by (auto simp: add_binding_def only_parse_errors_def)

lemma service_ports_parsed:
  "parsed_state r \<Longrightarrow> parsed_state (service_ports r s f ports)"
proof (induction ports arbitrary: r)
  case Nil
  then show ?case by simp
next
  case (Cons port ports)
  show ?case
  proof (cases "parsePort port s f")
    case None
    with Cons show ?thesis by simp
  next
    case (Some b)
    with Cons show ?thesis
      by (simp add: add_binding_parsed parsePort_nonzero)
  qed
qed

lemma services_loop_parsed:
  "parsed_state r \<Longrightarrow> parsed_state (services_loop r f svcs)"
  by (induction r f svcs rule: services_loop.induct) (auto simp: service_ports_parsed)

lemma parse_error_step_parsed:
  "parsed_state r \<Longrightarrow> parsed_state (r\<lparr>Issues := Issues r @ [parse_error_issue f e]\<rparr>)"
  by (auto simp: parsed_state_def grouped_def parse_error_issue_def only_parse_errors_def)

lemma parse_files_parsed:
  "parsed_state r \<Longrightarrow> parsed_state (parse_files r files)"
proof (induction r files rule: parse_files.induct)
  case (1 r)
  then show ?case by simp
next
  case (2 r fl content files)
  then show ?case
    by (cases content)
       (auto simp: parseComposeFile_def services_loop_parsed parse_error_step_parsed)
qed

lemma scanned_parsed: "parsed_state (scanned base files)"
  unfolding scanned_def
  by (rule parse_files_parsed) (simp add: parsed_state_def grouped_def only_parse_errors_def)

section \<open>Facts about the loops of analyze\<close>

lemma collision_loop_eq:
  "collision_loop issues pm ks =
     issues @ concat (map (\<lambda>p. case pm p of None \<Rightarrow> [] | Some bs \<Rightarrow> group_issues p bs) ks)"
  by (induction ks arbitrary: issues) (auto split: option.splits)

lemma privileged_loop_eq:
  "privileged_loop issues bs =
     issues @ map privileged_issue (filter (\<lambda>b. HostPort b > 0 \<and> HostPort b < 1024) bs)"
  by (induction bs arbitrary: issues) auto

lemma alreadyWarned_append_common:
  "alreadyWarned (issues @ [common_issue b svc]) p = alreadyWarned issues p"
  by (auto simp: alreadyWarned_def common_issue_def list_ex_iff)

lemma common_issues_append:
  "common_issues (issues @ [common_issue b svc]) = common_issues issues"
  by (rule ext)
     (simp add: common_issues_def alreadyWarned_append_common split: option.splits)

lemma common_loop_eq:
  "common_loop issues bs = issues @ concat (map (common_issues issues) bs)"
proof (induction bs arbitrary: issues)
  case Nil
  show ?case by simp
next
  case (Cons b bs)
  show ?case
    by (cases "commonPorts (HostPort b)")
       (simp_all add: Cons.IH common_issues_append common_issues_def [of _ b])
qed

lemma mset_insert_less: "mset (insert_less lt x ys) = add_mset x (mset ys)"
  by (induction ys) auto

lemma mset_sort_Slice: "mset (sort_Slice lt xs) = mset xs"
  by (induction xs) (auto simp: sort_Slice_def mset_insert_less)

lemma set_sort_Slice: "set (sort_Slice lt xs) = set xs"
  using mset_sort_Slice [of lt xs] by (metis set_mset_mset)

lemma mset_filter_sort_Slice: "mset (filter P (sort_Slice lt xs)) = mset (filter P xs)"
  by (simp add: mset_sort_Slice)

lemma filter_sort_Slice_Nil: "filter P xs = [] \<Longrightarrow> filter P (sort_Slice lt xs) = []"
  using mset_filter_sort_Slice [of P lt xs] by simp

lemma mset_single_list: "mset ys = {#x#} \<Longrightarrow> ys = [x]"
  by (cases ys) auto

lemma filter_sort_Slice_single: "filter P xs = [x] \<Longrightarrow> filter P (sort_Slice lt xs) = [x]"
proof -
  assume "filter P xs = [x]"
  then have "mset (filter P (sort_Slice lt xs)) = {#x#}"
    using mset_filter_sort_Slice [of P lt xs] by simp
  then show ?thesis by (rule mset_single_list)
qed

lemma insert_less_set: "set (insert_less lt x ys) = insert x (set ys)"
  by (induction ys) auto

lemma insert_less_sorted:
  assumes asym: "\<And>a b. lt a b \<Longrightarrow> \<not> lt b a"
    and trans: "\<And>a b c. \<not> lt b a \<Longrightarrow> \<not> lt c b \<Longrightarrow> \<not> lt c a"
  shows "sorted_wrt (\<lambda>a b. \<not> lt b a) ys \<Longrightarrow>
         sorted_wrt (\<lambda>a b. \<not> lt b a) (insert_less lt x ys)"
proof (induction ys)
  case Nil
  then show ?case by simp
next
  case (Cons y ys)
  from Cons.prems have tail: "sorted_wrt (\<lambda>a b. \<not> lt b a) ys"
    and above: "\<forall>z\<in>set ys. \<not> lt z y"
    by simp_all
  show ?case
  proof (cases "lt y x")
    case True
    then have "\<not> lt x y" by (rule asym)
    with True above Cons.IH [OF tail] show ?thesis
      by (simp add: insert_less_set)
  next
    case False
    have "\<forall>z\<in>set ys. \<not> lt z x"
    proof
      fix z assume "z \<in> set ys"
      with above have "\<not> lt z y" by simp
      with False show "\<not> lt z x" by (rule trans)
    qed
    with False Cons.prems show ?thesis by simp
  qed
qed

lemma sort_Slice_sorted:
  assumes asym: "\<And>a b. lt a b \<Longrightarrow> \<not> lt b a"
    and trans: "\<And>a b c. \<not> lt b a \<Longrightarrow> \<not> lt c b \<Longrightarrow> \<not> lt c a"
  shows "sorted_wrt (\<lambda>a b. \<not> lt b a) (sort_Slice lt xs)"
proof (induction xs)
  case Nil
  show ?case by (simp add: sort_Slice_def)
next
  case (Cons x xs)
  have "sort_Slice lt (x # xs) = insert_less lt x (sort_Slice lt xs)"
    by (simp add: sort_Slice_def)
  moreover have "sorted_wrt (\<lambda>a b. \<not> lt b a) (insert_less lt x (sort_Slice lt xs))"
    using asym trans Cons.IH by (rule insert_less_sorted)
  ultimately show ?case by simp
qed

lemma issue_less_asym: "issue_less a b \<Longrightarrow> \<not> issue_less b a"
  by (auto simp: issue_less_def split: if_splits)

lemma issue_less_negtrans:
  "\<not> issue_less b a \<Longrightarrow> \<not> issue_less c b \<Longrightarrow> \<not> issue_less c a"
  by (auto simp: issue_less_def split: if_splits)

lemma analyze_issues_sorted:
  "sorted_wrt (\<lambda>a b. \<not> issue_less b a) (Issues (analyze ks r))"
proof -
  have "sorted_wrt (\<lambda>a b. \<not> issue_less b a) (sort_Slice issue_less (collect_issues ks r))"
    by (rule sort_Slice_sorted) (erule issue_less_asym, erule (1) issue_less_negtrans)
  then show ?thesis by (simp add: analyze_def)
qed

lemma collect_issues_eq:
  "collect_issues ks r =
     (let s1 = concat (map (\<lambda>p. case PortMap r p of None \<Rightarrow> [] | Some bs \<Rightarrow> group_issues p bs) ks);
          s2 = map privileged_issue
                 (filter (\<lambda>b. HostPort b > 0 \<and> HostPort b < 1024) (PortBindings r))
      in Issues r @ s1 @ s2 @
         concat (map (common_issues (Issues r @ s1 @ s2)) (PortBindings r)))"
  by (simp add: collect_issues_def collision_loop_eq privileged_loop_eq common_loop_eq Let_def)


lemma group_issues_port: "i \<in> set (group_issues p bs) \<Longrightarrow> Port i = p"
  by (auto simp: group_issues_def collision_issue_def potential_issue_def Let_def split: if_splits)

lemma filter_concat_port:
  assumes "distinct ks" and "p \<in> set ks" and "\<And>k i. i \<in> set (f k) \<Longrightarrow> Port i = k"
  shows "filter (\<lambda>i. Q i \<and> Port i = p) (concat (map f ks)) = filter Q (f p)"
  using assms(1,2)
proof (induction ks)
  case Nil
  then show ?case by simp
next
  case (Cons k ks)
  have here: "filter (\<lambda>i. Q i \<and> Port i = p) (f k) = (if k = p then filter Q (f p) else [])"
    using assms(3) [of _ k] by (auto simp: filter_empty_conv intro: filter_cong)
  show ?case
  proof (cases "k = p")
    case True
    with Cons.prems have "p \<notin> set ks" by simp
    then have "filter (\<lambda>i. Q i \<and> Port i = p) (concat (map f ks)) = []"
      using assms(3) by (auto simp: filter_empty_conv)
    with here True show ?thesis by simp
  next
    case False
    with Cons here show ?thesis by simp
  qed
qed

text \<open>The issues of the grouping kinds for one port, in the finished list.\<close>

lemma grouping_issues_of_port:
  assumes order: "visit_order ks (PortMap r)"
    and prior: "only_parse_errors r"
    and group: "PortMap r port = Some bindings"
    and kind: "ty = ''collision'' \<or> ty = ''potential_collision''"
  shows "filter (\<lambda>i. Type i = ty \<and> Port i = port) (collect_issues ks r)
           = filter (\<lambda>i. Type i = ty) (group_issues port bindings)"
proof -
  let ?P = "\<lambda>i. Type i = ty \<and> Port i = port"
  let ?f = "\<lambda>p. case PortMap r p of None \<Rightarrow> [] | Some bs \<Rightarrow> group_issues p bs"
  from order group have ks: "distinct ks" "port \<in> set ks"
    by (auto simp: visit_order_def)
  have f_port: "\<And>k i. i \<in> set (?f k) \<Longrightarrow> Port i = k"
    by (auto split: option.splits dest: group_issues_port)
  have s1: "filter ?P (concat (map ?f ks)) = filter (\<lambda>i. Type i = ty) (?f port)"
    using ks f_port by (rule filter_concat_port)
  have s0: "filter ?P (Issues r) = []"
    using prior kind by (auto simp: only_parse_errors_def list_all_iff filter_empty_conv)
  have s2: "filter ?P (map privileged_issue bs) = []" for bs
    using kind by (auto simp: filter_empty_conv privileged_issue_def)
  have s3: "filter ?P (concat (map (common_issues is) bs)) = []" for "is" bs
    using kind
    by (auto simp: filter_empty_conv common_issues_def common_issue_def
             split: option.splits if_splits)
  show ?thesis
    by (simp add: collect_issues_eq Let_def s0 s1 s2 s3 group)
qed


lemma grouped_dom: "grouped r \<Longrightarrow> dom (PortMap r) = HostPort ` set (PortBindings r)"
  by (auto simp: grouped_def dom_def filter_empty_conv split: if_splits)

lemma grouped_lookup:
  "grouped r \<Longrightarrow> filter (\<lambda>b. HostPort b = p) (PortBindings r) = bs \<Longrightarrow> bs \<noteq> [] \<Longrightarrow>
   PortMap r p = Some bs"
  by (auto simp: grouped_def)

lemma scanned_visit_order:
  "distinct ks \<Longrightarrow> set ks = set (map HostPort (PortBindings (scanned base files))) \<Longrightarrow>
   visit_order ks (PortMap (scanned base files))"
  using scanned_parsed [of base files]
  by (simp add: visit_order_def parsed_state_def grouped_dom)

lemma scanned_lookup:
  "filter (\<lambda>b. HostPort b = p) (PortBindings (scanned base files)) = bs \<Longrightarrow> bs \<noteq> [] \<Longrightarrow>
   PortMap (scanned base files) p = Some bs"
  using scanned_parsed [of base files]
  by (simp add: parsed_state_def grouped_lookup)

lemma scanned_only_parse_errors: "only_parse_errors (scanned base files)"
  using scanned_parsed [of base files] by (simp add: parsed_state_def)

lemma analyze_filter_Nil:
  "filter P (collect_issues ks r) = [] \<Longrightarrow> filter P (Issues (analyze ks r)) = []"
  by (simp add: analyze_def filter_sort_Slice_Nil)

lemma analyze_filter_single:
  "filter P (collect_issues ks r) = [x] \<Longrightarrow> filter P (Issues (analyze ks r)) = [x]"
  by (simp add: analyze_def filter_sort_Slice_single)

lemma group_issues_collision:
  "length bs > 1 \<Longrightarrow>
   length (filter wildcard bs) \<ge> 2 \<or>
     (length (filter wildcard bs) \<ge> 1 \<and> length (filter (\<lambda>b. \<not> wildcard b) bs) \<ge> 1) \<Longrightarrow>
   group_issues p bs = [collision_issue p bs]"
  by (auto simp: group_issues_def Let_def)

lemma group_issues_potential:
  "filter wildcard bs = [] \<Longrightarrow> length (filter (\<lambda>b. \<not> wildcard b) bs) \<ge> 2 \<Longrightarrow>
   group_issues p bs = [potential_issue p bs]"
proof -
  assume w: "filter wildcard bs = []" and s: "length (filter (\<lambda>b. \<not> wildcard b) bs) \<ge> 2"
  have "length (filter (\<lambda>b. \<not> wildcard b) bs) \<le> length bs" by (rule length_filter_le)
  with s have "length bs > 1" by linarith
  with w s show ?thesis by (simp add: group_issues_def Let_def)
qed

lemma group_issues_single: "length bs = 1 \<Longrightarrow> group_issues p bs = []"
  by (simp add: group_issues_def)

lemma set_analyze: "set (Issues (analyze ks r)) = set (collect_issues ks r)"
  by (simp add: analyze_def set_sort_Slice)

lemma mset_filter_analyze:
  "mset (filter P (Issues (analyze ks r))) = mset (filter P (collect_issues ks r))"
  by (simp add: analyze_def mset_sort_Slice)

lemma PortMap_analyze: "PortMap (analyze ks r) = PortMap r"
  by (simp add: analyze_def)

lemma PortBindings_analyze: "PortBindings (analyze ks r) = PortBindings r"
  by (simp add: analyze_def)

lemma filter_type_group_issues:
  "ty \<noteq> ''collision'' \<Longrightarrow> ty \<noteq> ''potential_collision'' \<Longrightarrow>
   filter (\<lambda>i. Type i = ty) (group_issues p bs) = []"
  by (auto simp: group_issues_def collision_issue_def potential_issue_def Let_def)

lemma filter_type_stage1:
  "ty \<noteq> ''collision'' \<Longrightarrow> ty \<noteq> ''potential_collision'' \<Longrightarrow>
   filter (\<lambda>i. Type i = ty)
     (concat (map (\<lambda>p. case pm p of None \<Rightarrow> [] | Some bs \<Rightarrow> group_issues p bs) ks)) = []"
  by (induction ks) (auto simp: filter_type_group_issues split: option.splits)

lemma filter_type_common:
  "ty \<noteq> ''common_port'' \<Longrightarrow>
   filter (\<lambda>i. Type i = ty) (concat (map (common_issues is) bs)) = []"
  by (induction bs) (auto simp: common_issues_def common_issue_def split: option.splits)

lemma filter_privileged_map:
  "filter (\<lambda>i. Type i = ''privileged'') (map privileged_issue bs) = map privileged_issue bs"
  by (induction bs) (auto simp: privileged_issue_def)

lemma filter_type_prior:
  "only_parse_errors r \<Longrightarrow> ty \<noteq> ''parse_error'' \<Longrightarrow> filter (\<lambda>i. Type i = ty) (Issues r) = []"
  by (auto simp: only_parse_errors_def list_all_iff filter_empty_conv)

lemma alreadyWarned_iff:
  "alreadyWarned issues p = (\<exists>i\<in>set issues. Type i = ''collision'' \<and> Port i = p)"
  by (auto simp: alreadyWarned_def list_ex_iff)

lemma common_issues_types:
  "i \<in> set (concat (map (common_issues is) bs)) \<Longrightarrow> Type i = ''common_port''"
  by (auto simp: common_issues_def common_issue_def split: option.splits if_splits)

text \<open>A \<^verbatim>\<open>collision\<close> issue is in the finished list exactly when the third loop saw it.\<close>

lemma flagged_iff:
  "(\<exists>i\<in>set (Issues (analyze ks r)). Type i = ''collision'' \<and> Port i = p) =
   alreadyWarned
     (Issues r @
      concat (map (\<lambda>p. case PortMap r p of None \<Rightarrow> [] | Some bs \<Rightarrow> group_issues p bs) ks) @
      map privileged_issue (filter (\<lambda>b. HostPort b > 0 \<and> HostPort b < 1024) (PortBindings r)))
     p"
proof -
  let ?pre = "Issues r @
      concat (map (\<lambda>p. case PortMap r p of None \<Rightarrow> [] | Some bs \<Rightarrow> group_issues p bs) ks) @
      map privileged_issue (filter (\<lambda>b. HostPort b > 0 \<and> HostPort b < 1024) (PortBindings r))"
  let ?s3 = "concat (map (common_issues ?pre) (PortBindings r))"
  have split: "set (Issues (analyze ks r)) = set ?pre \<union> set ?s3"
    by (simp add: set_analyze collect_issues_eq Let_def Un_assoc)
  have "\<not> (\<exists>i\<in>set ?s3. Type i = ''collision'' \<and> Port i = p)"
    using common_issues_types [of _ ?pre "PortBindings r"] by auto
  then show ?thesis
    unfolding split alreadyWarned_iff by blast
qed

lemma filter_common_keep:
  "filter (\<lambda>i. Type i = ''common_port'') (concat (map (common_issues is) bs))
     = concat (map (common_issues is) bs)"
  by (induction bs) (auto simp: common_issues_def common_issue_def split: option.splits)

lemma set_common_issues_one:
  "set (common_issues is b) =
     {i. \<exists>svc. commonPorts (HostPort b) = Some svc \<and> wildcard b \<and>
           \<not> alreadyWarned is (HostPort b) \<and> i = common_issue b svc}"
  by (cases "commonPorts (HostPort b)") (auto simp: common_issues_def)

lemma set_common_issues:
  "set (concat (map (common_issues is) bs)) =
     {i. \<exists>b svc. b \<in> set bs \<and> commonPorts (HostPort b) = Some svc \<and> wildcard b \<and>
           \<not> alreadyWarned is (HostPort b) \<and> i = common_issue b svc}"
proof -
  have "set (concat (map (common_issues is) bs)) = (\<Union>b\<in>set bs. set (common_issues is b))"
    by simp
  also have "\<dots> = {i. \<exists>b svc. b \<in> set bs \<and> commonPorts (HostPort b) = Some svc \<and> wildcard b \<and>
           \<not> alreadyWarned is (HostPort b) \<and> i = common_issue b svc}"
    unfolding set_common_issues_one by blast
  finally show ?thesis .
qed

lemma common_port_issues:
  assumes "only_parse_errors r"
  shows "{i \<in> set (Issues (analyze ks r)). Type i = ''common_port''} =
         {i. \<exists>b svc. b \<in> set (PortBindings r) \<and> commonPorts (HostPort b) = Some svc \<and>
                wildcard b \<and>
                \<not> (\<exists>j\<in>set (Issues (analyze ks r)). Type j = ''collision'' \<and> Port j = HostPort b) \<and>
                i = common_issue b svc}"
proof -
  let ?s1 = "concat (map (\<lambda>p. case PortMap r p of None \<Rightarrow> [] | Some bs \<Rightarrow> group_issues p bs) ks)"
  let ?s2 = "map privileged_issue (filter (\<lambda>b. HostPort b > 0 \<and> HostPort b < 1024) (PortBindings r))"
  have s2: "filter (\<lambda>i. Type i = ''common_port'') ?s2 = []"
    by (simp add: filter_empty_conv privileged_issue_def)
  have "filter (\<lambda>i. Type i = ''common_port'') (collect_issues ks r)
          = concat (map (common_issues (Issues r @ ?s1 @ ?s2)) (PortBindings r))"
    using assms
    by (simp add: collect_issues_eq Let_def filter_type_prior filter_type_stage1 s2
                  filter_common_keep)
  then have "set (filter (\<lambda>i. Type i = ''common_port'') (collect_issues ks r))
          = set (concat (map (common_issues (Issues r @ ?s1 @ ?s2)) (PortBindings r)))"
    by (rule arg_cong)
  then have "{i \<in> set (Issues (analyze ks r)). Type i = ''common_port''}
          = set (concat (map (common_issues (Issues r @ ?s1 @ ?s2)) (PortBindings r)))"
    by (simp add: set_analyze)
  also have "\<dots> = {i. \<exists>b svc. b \<in> set (PortBindings r) \<and> commonPorts (HostPort b) = Some svc \<and>
                  wildcard b \<and> \<not> alreadyWarned (Issues r @ ?s1 @ ?s2) (HostPort b) \<and>
                  i = common_issue b svc}"
    by (rule set_common_issues)
  finally show ?thesis
    by (simp only: flagged_iff)
qed

lemma group_issues_bindings: "i \<in> set (group_issues p bs) \<Longrightarrow> Bindings i = bs"
  by (auto simp: group_issues_def collision_issue_def potential_issue_def Let_def split: if_splits)

lemma grouped_subset: "grouped r \<Longrightarrow> PortMap r p = Some bs \<Longrightarrow> set bs \<subseteq> set (PortBindings r)"
  by (auto simp: grouped_def split: if_splits)

lemma grouped_zero:
  "grouped r \<Longrightarrow> list_all (\<lambda>b. HostPort b \<noteq> 0) (PortBindings r) \<Longrightarrow> PortMap r 0 = None"
  by (auto simp: grouped_def list_all_iff filter_empty_conv)

lemma collect_issues_bindings:
  assumes "parsed_state r" and "i \<in> set (collect_issues ks r)"
  shows "set (Bindings i) \<subseteq> set (PortBindings r)"
proof -
  let ?s1 = "concat (map (\<lambda>p. case PortMap r p of None \<Rightarrow> [] | Some bs \<Rightarrow> group_issues p bs) ks)"
  let ?s2 = "map privileged_issue (filter (\<lambda>b. HostPort b > 0 \<and> HostPort b < 1024) (PortBindings r))"
  let ?s3 = "concat (map (common_issues (Issues r @ ?s1 @ ?s2)) (PortBindings r))"
  from assms(1) have g: "grouped r" and p: "only_parse_errors r"
    by (simp_all add: parsed_state_def)
  from assms(2) consider "i \<in> set (Issues r)" | "i \<in> set ?s1" | "i \<in> set ?s2" | "i \<in> set ?s3"
    by (auto simp: collect_issues_eq Let_def)
  then show ?thesis
  proof cases
    case 1
    with p show ?thesis by (auto simp: only_parse_errors_def list_all_iff)
  next
    case 2
    then obtain k where "i \<in> set (case PortMap r k of None \<Rightarrow> [] | Some bs \<Rightarrow> group_issues k bs)"
      by auto
    then obtain bs where "PortMap r k = Some bs" and "i \<in> set (group_issues k bs)"
      by (cases "PortMap r k") auto
    with g show ?thesis
      using grouped_subset [of r k bs] group_issues_bindings [of i k bs] by simp
  next
    case 3
    then show ?thesis by (auto simp: privileged_issue_def)
  next
    case 4
    then show ?thesis
      unfolding set_common_issues by (auto simp: common_issue_def)
  qed
qed

lemma Issues_service_ports: "Issues (service_ports r s f ports) = Issues r"
  by (induction ports arbitrary: r) (auto simp: add_binding_def split: option.splits)

lemma Issues_services_loop: "Issues (services_loop r f svcs) = Issues r"
  by (induction r f svcs rule: services_loop.induct) (auto simp: Issues_service_ports)

lemma PortBindings_service_ports:
  "PortBindings (service_ports r s f ports) = PortBindings r @ service_bindings f s ports"
  by (induction ports arbitrary: r)
     (auto simp: service_bindings_def add_binding_def split: option.splits)

lemma PortBindings_services_loop:
  "PortBindings (services_loop r f svcs) = PortBindings r @ file_bindings (f, Services svcs)"
  by (induction r f svcs rule: services_loop.induct)
     (auto simp: file_bindings_def PortBindings_service_ports)

lemma Issues_parse_files:
  "Issues (parse_files r files) = Issues r @ concat (map file_errors files)"
proof (induction r files rule: parse_files.induct)
  case (1 r)
  show ?case by simp
next
  case (2 r fl content files)
  then show ?case
    by (cases content)
       (simp_all add: parseComposeFile_def file_errors_def Issues_services_loop)
qed

lemma PortBindings_parse_files:
  "PortBindings (parse_files r files) = PortBindings r @ concat (map file_bindings files)"
proof (induction r files rule: parse_files.induct)
  case (1 r)
  show ?case by simp
next
  case (2 r fl content files)
  then show ?case
    by (cases content)
       (simp_all add: parseComposeFile_def file_bindings_def PortBindings_services_loop)
qed

lemma PortBindings_scanned: "PortBindings (scanned base files) = concat (map file_bindings files)"
  by (simp add: scanned_def PortBindings_parse_files)

lemma Issues_scanned: "Issues (scanned base files) = concat (map file_errors files)"
  by (simp add: scanned_def Issues_parse_files)

lemma grouped_PortMap_eq:
  "grouped r1 \<Longrightarrow> grouped r2 \<Longrightarrow> PortBindings r1 = PortBindings r2 \<Longrightarrow> PortMap r1 = PortMap r2"
  by (rule ext) (simp add: grouped_def)

lemma common_issues_cong:
  "set is1 = insert e (set is2) \<Longrightarrow> Type e \<noteq> ''collision'' \<Longrightarrow>
   common_issues is1 = common_issues is2"
  by (rule ext) (auto simp: common_issues_def alreadyWarned_iff split: option.splits)

lemma collect_issues_extra:
  assumes pb: "PortBindings r1 = PortBindings r2"
    and pm: "PortMap r1 = PortMap r2"
    and iss: "mset (Issues r1) = add_mset e (mset (Issues r2))"
    and ty: "Type e \<noteq> ''collision''"
  shows "mset (collect_issues ks r1) = add_mset e (mset (collect_issues ks r2))"
proof -
  let ?s1 = "concat (map (\<lambda>p. case PortMap r2 p of None \<Rightarrow> [] | Some bs \<Rightarrow> group_issues p bs) ks)"
  let ?s2 = "map privileged_issue (filter (\<lambda>b. HostPort b > 0 \<and> HostPort b < 1024) (PortBindings r2))"
  from iss have "set (Issues r1) = insert e (set (Issues r2))"
    by (metis set_mset_add_mset_insert set_mset_mset)
  then have "set (Issues r1 @ ?s1 @ ?s2) = insert e (set (Issues r2 @ ?s1 @ ?s2))"
    by simp
  then have "common_issues (Issues r1 @ ?s1 @ ?s2) = common_issues (Issues r2 @ ?s1 @ ?s2)"
    using ty by (rule common_issues_cong)
  then show ?thesis
    by (simp add: collect_issues_eq Let_def pb pm iss)
qed

lemma privileged_issues_collect:
  "only_parse_errors r \<Longrightarrow>
   filter (\<lambda>i. Type i = ''privileged'') (collect_issues ks r)
     = map privileged_issue
         (filter (\<lambda>b. 0 < HostPort b \<and> HostPort b < 1024) (PortBindings r))"
  by (simp add: collect_issues_eq Let_def filter_type_prior filter_type_stage1
                filter_type_common filter_privileged_map)

lemma group_issues_types:
  "i \<in> set (group_issues p bs) \<Longrightarrow> Type i = ''collision'' \<or> Type i = ''potential_collision''"
  by (auto simp: group_issues_def collision_issue_def potential_issue_def Let_def split: if_splits)

lemma group_issues_short: "length (group_issues p bs) \<le> 1"
  by (simp add: group_issues_def Let_def)

lemma mset_eq_short: "mset xs = mset ys \<Longrightarrow> length ys \<le> 1 \<Longrightarrow> xs = ys"
proof (cases ys)
  case Nil
  assume "mset xs = mset ys"
  with Nil show ?thesis by simp
next
  case (Cons y zs)
  assume "mset xs = mset ys" and "length ys \<le> 1"
  with Cons have "zs = []" and "mset xs = {#y#}" by simp_all
  with Cons show ?thesis by (simp add: mset_single_list)
qed

text \<open>The grouping issues of one port in the finished list are what its group gives.\<close>

lemma grouping_issues_both:
  assumes order: "visit_order ks (PortMap r)"
    and prior: "only_parse_errors r"
    and group: "PortMap r port = Some bindings"
  shows "filter (\<lambda>i. (Type i = ''collision'' \<or> Type i = ''potential_collision'') \<and> Port i = port)
           (Issues (analyze ks r)) = group_issues port bindings"
proof -
  let ?Q = "\<lambda>i. Type i = ''collision'' \<or> Type i = ''potential_collision''"
  let ?P = "\<lambda>i. ?Q i \<and> Port i = port"
  let ?f = "\<lambda>p. case PortMap r p of None \<Rightarrow> [] | Some bs \<Rightarrow> group_issues p bs"
  from order group have ks: "distinct ks" "port \<in> set ks"
    by (auto simp: visit_order_def)
  have f_port: "\<And>k i. i \<in> set (?f k) \<Longrightarrow> Port i = k"
    by (auto split: option.splits dest: group_issues_port)
  have "filter ?P (concat (map ?f ks)) = filter ?Q (?f port)"
    using ks f_port by (rule filter_concat_port)
  also have "\<dots> = group_issues port bindings"
    using group_issues_types [of _ port bindings] by (simp add: group filter_id_conv)
  finally have s1: "filter ?P (concat (map ?f ks)) = group_issues port bindings" .
  have s0: "filter ?P (Issues r) = []"
    using prior by (auto simp: only_parse_errors_def list_all_iff filter_empty_conv)
  have s2: "filter ?P (map privileged_issue bs) = []" for bs
    by (auto simp: filter_empty_conv privileged_issue_def)
  have s3: "filter ?P (concat (map (common_issues is) bs)) = []" for "is" bs
    by (auto simp: filter_empty_conv common_issues_def common_issue_def
             split: option.splits if_splits)
  have "filter ?P (collect_issues ks r) = group_issues port bindings"
    by (simp add: collect_issues_eq Let_def s0 s1 s2 s3)
  then have "mset (filter ?P (Issues (analyze ks r))) = mset (group_issues port bindings)"
    using mset_filter_analyze [of ?P ks r] by (simp only:)
  then show ?thesis
    using group_issues_short by (rule mset_eq_short)
qed

lemma rank_order_eq:
  "(\<lambda>a b. \<not> issue_less b a)
     = (\<lambda>a b. rank a < rank b \<or> (rank a = rank b \<and> Port a \<le> Port b))"
  by (intro ext) (auto simp: issue_less_def rank_def)

section \<open>Facts about the profile overlay\<close>

lemma extend_Nil: "extend m [] = m"
  by (rule ext) (simp add: extend_def)

lemma extend_append: "extend (extend m es1) es2 = extend m (es1 @ es2)"
  by (rule ext) (auto simp: extend_def split: option.splits)

lemma ports_loop_eq:
  "ports_loop m profileName svcName ports = extend m (port_claims profileName svcName ports)"
proof (induction ports arbitrary: m)
  case Nil
  show ?case by (simp add: port_claims_def extend_Nil)
next
  case (Cons port ports)
  let ?info = "\<lparr>Service_si = svcName, Profile_si = profileName, Port_si = port\<rparr>"
  have step: "(let hostPort = extractHostPort port
               in if hostPort \<noteq> []
                  then m(hostPort \<mapsto> (case m hostPort of None \<Rightarrow> [] | Some ss \<Rightarrow> ss) @ [?info])
                  else m)
              = extend m (port_claims profileName svcName [port])"
    by (rule ext) (simp add: extend_def port_claims_def Let_def)
  have "port_claims profileName svcName (port # ports)
          = port_claims profileName svcName [port] @ port_claims profileName svcName ports"
    by (simp add: port_claims_def)
  then show ?case
    by (simp only: ports_loop.simps step Cons.IH extend_append)
qed

lemma profile_services_loop_eq:
  "profile_services_loop m profileName svcs =
     extend m (concat (map (\<lambda>svc. port_claims profileName (Name_ps svc) (Ports_ps svc)) svcs))"
  by (induction svcs arbitrary: m) (simp_all add: extend_Nil ports_loop_eq extend_append)

lemma profiles_loop_eq:
  "profiles_loop m c profiles = extend m (concat (map (profile_claims c) profiles))"
proof (induction profiles arbitrary: m)
  case Nil
  show ?case by (simp add: extend_Nil)
next
  case (Cons profileName profiles)
  have "(case Profiles_c c profileName of
           None \<Rightarrow> m
         | Some profile \<Rightarrow> profile_services_loop m profileName (Services_p profile))
        = extend m (profile_claims c profileName)"
    by (cases "Profiles_c c profileName")
       (simp_all add: profile_claims_def extend_Nil profile_services_loop_eq)
  then show ?case
    by (simp add: Cons.IH extend_append)
qed

lemma portServices_of_eq:
  "portServices_of c activeProfiles p =
     (if claims_on c activeProfiles p = [] then None else Some (claims_on c activeProfiles p))"
  by (simp add: portServices_of_def profiles_loop_eq extend_def claims_on_def active_claims_def)

lemma dom_portServices_of:
  "dom (portServices_of c activeProfiles) = fst ` set (active_claims c activeProfiles)"
  by (auto simp: dom_def portServices_of_eq claims_on_def filter_empty_conv image_iff)

section \<open>Normalisation\<close>

text \<open>
  C7.  The long-form mapping \<^verbatim>\<open>{target: 80, published: 8080, protocol: tcp}\<close> and the string
  \<^verbatim>\<open>"8080:80"\<close>, for the same service and file, give the same binding: host address, host
  port, container port, protocol, service and file are equal (and, here, the retained
  original text as well, since the long form is printed back as \<^verbatim>\<open>"8080:80"\<close>).
\<close>

theorem long_form_same_binding:
  "parsePort (PMap [''target'' \<mapsto> YInt 80, ''published'' \<mapsto> YInt 8080,
                    ''protocol'' \<mapsto> YString ''tcp'']) service file
     = Some (binding_8080_80 service file) \<and>
   parsePort (PString ''8080:80'') service file = Some (binding_8080_80 service file)"
  by code_simp

section \<open>Grouping\<close>

text \<open>
  C1.  For a port of the port map with its group of bindings: two wildcard bindings, or a
  wildcard and a specific one, give exactly one \<^verbatim>\<open>collision\<close> issue for the port, of severity
  \<^verbatim>\<open>error\<close>, carrying the whole group; two or more specific bindings and no wildcard give
  exactly one \<^verbatim>\<open>potential_collision\<close> issue of severity \<^verbatim>\<open>warning\<close> and no \<^verbatim>\<open>collision\<close>
  issue (whether or not the addresses differ); a group of one gives neither.
\<close>

theorem analyze_grouping_issues:
  assumes "visit_order ks (PortMap r)"
    and "only_parse_errors r"
    and "PortMap r port = Some bindings"
  shows
    "(length bindings > 1 \<and>
      (length (filter wildcard bindings) \<ge> 2 \<or>
       (length (filter wildcard bindings) \<ge> 1 \<and>
        length (filter (\<lambda>b. \<not> wildcard b) bindings) \<ge> 1)) \<longrightarrow>
        filter (\<lambda>i. Type i = ''collision'' \<and> Port i = port) (Issues (analyze ks r))
          = [collision_issue port bindings] \<and>
        filter (\<lambda>i. Type i = ''potential_collision'' \<and> Port i = port) (Issues (analyze ks r)) = []) \<and>
     (filter wildcard bindings = [] \<and> length (filter (\<lambda>b. \<not> wildcard b) bindings) \<ge> 2 \<longrightarrow>
        filter (\<lambda>i. Type i = ''potential_collision'' \<and> Port i = port) (Issues (analyze ks r))
          = [potential_issue port bindings] \<and>
        filter (\<lambda>i. Type i = ''collision'' \<and> Port i = port) (Issues (analyze ks r)) = []) \<and>
     (length bindings = 1 \<longrightarrow>
        filter (\<lambda>i. Type i = ''collision'' \<and> Port i = port) (Issues (analyze ks r)) = [] \<and>
        filter (\<lambda>i. Type i = ''potential_collision'' \<and> Port i = port) (Issues (analyze ks r)) = []) \<and>
     Severity (collision_issue port bindings) = ''error'' \<and>
     Bindings (collision_issue port bindings) = bindings \<and>
     Severity (potential_issue port bindings) = ''warning'' \<and>
     Bindings (potential_issue port bindings) = bindings"
proof -
  have col: "filter (\<lambda>i. Type i = ''collision'' \<and> Port i = port) (collect_issues ks r)
               = filter (\<lambda>i. Type i = ''collision'') (group_issues port bindings)"
    using assms by (rule grouping_issues_of_port) simp
  have pot: "filter (\<lambda>i. Type i = ''potential_collision'' \<and> Port i = port) (collect_issues ks r)
               = filter (\<lambda>i. Type i = ''potential_collision'') (group_issues port bindings)"
    using assms by (rule grouping_issues_of_port) simp
  have a: "filter (\<lambda>i. Type i = ''collision'' \<and> Port i = port) (Issues (analyze ks r))
             = [collision_issue port bindings] \<and>
           filter (\<lambda>i. Type i = ''potential_collision'' \<and> Port i = port) (Issues (analyze ks r)) = []"
    if "length bindings > 1"
      and "length (filter wildcard bindings) \<ge> 2 \<or>
           (length (filter wildcard bindings) \<ge> 1 \<and>
            length (filter (\<lambda>b. \<not> wildcard b) bindings) \<ge> 1)"
  proof -
    from that have g: "group_issues port bindings = [collision_issue port bindings]"
      by (rule group_issues_collision)
    show ?thesis
      by (intro conjI analyze_filter_single analyze_filter_Nil)
         (simp_all add: col pot g collision_issue_def)
  qed
  have b: "filter (\<lambda>i. Type i = ''potential_collision'' \<and> Port i = port) (Issues (analyze ks r))
             = [potential_issue port bindings] \<and>
           filter (\<lambda>i. Type i = ''collision'' \<and> Port i = port) (Issues (analyze ks r)) = []"
    if "filter wildcard bindings = []"
      and "length (filter (\<lambda>b. \<not> wildcard b) bindings) \<ge> 2"
  proof -
    from that have g: "group_issues port bindings = [potential_issue port bindings]"
      by (rule group_issues_potential)
    show ?thesis
      by (intro conjI analyze_filter_single analyze_filter_Nil)
         (simp_all add: col pot g potential_issue_def)
  qed
  have c: "filter (\<lambda>i. Type i = ''collision'' \<and> Port i = port) (Issues (analyze ks r)) = [] \<and>
           filter (\<lambda>i. Type i = ''potential_collision'' \<and> Port i = port) (Issues (analyze ks r)) = []"
    if "length bindings = 1"
  proof -
    from that have g: "group_issues port bindings = []"
      by (rule group_issues_single)
    show ?thesis
      by (intro conjI analyze_filter_Nil) (simp_all add: col pot g)
  qed
  have d: "Severity (collision_issue port bindings) = ''error'' \<and>
     Bindings (collision_issue port bindings) = bindings \<and>
     Severity (potential_issue port bindings) = ''warning'' \<and>
     Bindings (potential_issue port bindings) = bindings"
    by (simp add: collision_issue_def potential_issue_def)
  from a b c d show ?thesis by blast
qed

lemma grouping_example_bindings:
  "PortBindings (scanned ''.'' grouping_example) =
     [string_binding [] 8080 80 ''web1'' ''docker-compose.yml'' ''8080:80'',
      string_binding ''127.0.0.1'' 9000 9000 ''web1'' ''docker-compose.yml'' ''127.0.0.1:9000:9000'',
      string_binding [] 3000 3000 ''web1'' ''docker-compose.yml'' ''3000'',
      string_binding [] 8080 80 ''web2'' ''docker-compose.yml'' ''8080:80'',
      string_binding ''192.168.1.1'' 9000 9000 ''web2'' ''docker-compose.yml'' ''192.168.1.1:9000:9000'']"
  by code_simp

theorem analyze_grouping_issues_witness:
  "visit_order [9000, 3000, 8080] (PortMap (scanned ''.'' grouping_example)) \<and>
   only_parse_errors (scanned ''.'' grouping_example) \<and>
   filter (\<lambda>i. Type i = ''collision'' \<and> Port i = 8080)
       (Issues (analyze [9000, 3000, 8080] (scanned ''.'' grouping_example)))
     = [collision_issue 8080
          [string_binding [] 8080 80 ''web1'' ''docker-compose.yml'' ''8080:80'',
           string_binding [] 8080 80 ''web2'' ''docker-compose.yml'' ''8080:80'']] \<and>
   filter (\<lambda>i. Type i = ''potential_collision'' \<and> Port i = 9000)
       (Issues (analyze [9000, 3000, 8080] (scanned ''.'' grouping_example)))
     = [potential_issue 9000
          [string_binding ''127.0.0.1'' 9000 9000 ''web1'' ''docker-compose.yml'' ''127.0.0.1:9000:9000'',
           string_binding ''192.168.1.1'' 9000 9000 ''web2'' ''docker-compose.yml'' ''192.168.1.1:9000:9000'']] \<and>
   filter (\<lambda>i. Type i = ''collision'' \<and> Port i = 9000)
       (Issues (analyze [9000, 3000, 8080] (scanned ''.'' grouping_example))) = [] \<and>
   filter (\<lambda>i. Type i = ''collision'' \<and> Port i = 3000)
       (Issues (analyze [9000, 3000, 8080] (scanned ''.'' grouping_example))) = [] \<and>
   filter (\<lambda>i. Type i = ''potential_collision'' \<and> Port i = 3000)
       (Issues (analyze [9000, 3000, 8080] (scanned ''.'' grouping_example))) = []"
proof -
  let ?r = "scanned ''.'' grouping_example"
  let ?ks = "[9000, 3000, 8080] :: int list"
  have order: "visit_order ?ks (PortMap ?r)"
    by (rule scanned_visit_order) (auto simp: grouping_example_bindings string_binding_def)
  have prior: "only_parse_errors ?r"
    by (rule scanned_only_parse_errors)
  have g8080: "PortMap ?r 8080 =
      Some [string_binding [] 8080 80 ''web1'' ''docker-compose.yml'' ''8080:80'',
            string_binding [] 8080 80 ''web2'' ''docker-compose.yml'' ''8080:80'']"
    by (rule scanned_lookup) (simp_all add: grouping_example_bindings string_binding_def)
  have g9000: "PortMap ?r 9000 =
      Some [string_binding ''127.0.0.1'' 9000 9000 ''web1'' ''docker-compose.yml'' ''127.0.0.1:9000:9000'',
            string_binding ''192.168.1.1'' 9000 9000 ''web2'' ''docker-compose.yml'' ''192.168.1.1:9000:9000'']"
    by (rule scanned_lookup) (simp_all add: grouping_example_bindings string_binding_def)
  have g3000: "PortMap ?r 3000 =
      Some [string_binding [] 3000 3000 ''web1'' ''docker-compose.yml'' ''3000'']"
    by (rule scanned_lookup) (simp_all add: grouping_example_bindings string_binding_def)
  show ?thesis
    using order prior
      analyze_grouping_issues [OF order prior g8080]
      analyze_grouping_issues [OF order prior g9000]
      analyze_grouping_issues [OF order prior g3000]
    by (simp add: wildcard_def string_binding_def)
qed

text \<open>
  C10.  A group of two or more bindings that all carry one and the same specific address
  gives exactly one \<^verbatim>\<open>potential_collision\<close> issue of severity \<^verbatim>\<open>warning\<close> for the port, and
  no \<^verbatim>\<open>collision\<close> issue: the split looks at wildcard against specific only.
\<close>

theorem same_specific_address_potential_only:
  assumes "visit_order ks (PortMap r)"
    and "only_parse_errors r"
    and "PortMap r port = Some bindings"
    and "length bindings \<ge> 2"
    and "list_all (\<lambda>b. HostIP b = addr) bindings"
    and "addr \<noteq> []" and "addr \<noteq> ''0.0.0.0''"
  shows
    "filter (\<lambda>i. Type i = ''potential_collision'' \<and> Port i = port) (Issues (analyze ks r))
       = [potential_issue port bindings] \<and>
     Severity (potential_issue port bindings) = ''warning'' \<and>
     filter (\<lambda>i. Type i = ''collision'' \<and> Port i = port) (Issues (analyze ks r)) = []"
proof -
  from assms(5-7) have none: "filter wildcard bindings = []"
    by (auto simp: filter_empty_conv wildcard_def list_all_iff)
  from assms(5-7) have "filter (\<lambda>b. \<not> wildcard b) bindings = bindings"
    by (auto simp: wildcard_def list_all_iff)
  with assms(4) have "length (filter (\<lambda>b. \<not> wildcard b) bindings) \<ge> 2"
    by simp
  with none have g: "group_issues port bindings = [potential_issue port bindings]"
    by (rule group_issues_potential)
  have col: "filter (\<lambda>i. Type i = ''collision'' \<and> Port i = port) (collect_issues ks r)
               = filter (\<lambda>i. Type i = ''collision'') (group_issues port bindings)"
    using assms(1-3) by (rule grouping_issues_of_port) simp
  have pot: "filter (\<lambda>i. Type i = ''potential_collision'' \<and> Port i = port) (collect_issues ks r)
               = filter (\<lambda>i. Type i = ''potential_collision'') (group_issues port bindings)"
    using assms(1-3) by (rule grouping_issues_of_port) simp
  show ?thesis
    by (intro conjI analyze_filter_single analyze_filter_Nil)
       (simp_all add: col pot g potential_issue_def)
qed

lemma same_address_example_bindings:
  "PortBindings (scanned ''.'' same_address_example) =
     [string_binding ''127.0.0.1'' 8080 80 ''a'' ''docker-compose.yml'' ''127.0.0.1:8080:80'',
      string_binding ''127.0.0.1'' 8080 80 ''b'' ''docker-compose.yml'' ''127.0.0.1:8080:80'']"
  by code_simp

theorem same_specific_address_potential_only_witness:
  "visit_order [8080] (PortMap (scanned ''.'' same_address_example)) \<and>
   only_parse_errors (scanned ''.'' same_address_example) \<and>
   PortMap (scanned ''.'' same_address_example) 8080 =
     Some [string_binding ''127.0.0.1'' 8080 80 ''a'' ''docker-compose.yml'' ''127.0.0.1:8080:80'',
           string_binding ''127.0.0.1'' 8080 80 ''b'' ''docker-compose.yml'' ''127.0.0.1:8080:80''] \<and>
   filter (\<lambda>i. Type i = ''potential_collision'' \<and> Port i = 8080)
       (Issues (analyze [8080] (scanned ''.'' same_address_example)))
     = [potential_issue 8080
          [string_binding ''127.0.0.1'' 8080 80 ''a'' ''docker-compose.yml'' ''127.0.0.1:8080:80'',
           string_binding ''127.0.0.1'' 8080 80 ''b'' ''docker-compose.yml'' ''127.0.0.1:8080:80'']] \<and>
   filter (\<lambda>i. Type i = ''collision'' \<and> Port i = 8080)
       (Issues (analyze [8080] (scanned ''.'' same_address_example))) = []"
proof -
  let ?r = "scanned ''.'' same_address_example"
  let ?bs = "[string_binding ''127.0.0.1'' 8080 80 ''a'' ''docker-compose.yml'' ''127.0.0.1:8080:80'',
              string_binding ''127.0.0.1'' 8080 80 ''b'' ''docker-compose.yml'' ''127.0.0.1:8080:80'']"
  have order: "visit_order [8080] (PortMap ?r)"
    by (rule scanned_visit_order) (auto simp: same_address_example_bindings string_binding_def)
  have prior: "only_parse_errors ?r"
    by (rule scanned_only_parse_errors)
  have g: "PortMap ?r 8080 = Some ?bs"
    by (rule scanned_lookup) (simp_all add: same_address_example_bindings string_binding_def)
  have len: "length ?bs \<ge> 2" by simp
  have same: "list_all (\<lambda>b. HostIP b = ''127.0.0.1'') ?bs"
    by (simp add: string_binding_def)
  have ne: "''127.0.0.1'' \<noteq> []" "''127.0.0.1'' \<noteq> ''0.0.0.0''" by simp_all
  show ?thesis
    using order prior g
      same_specific_address_potential_only [OF order prior g len same ne]
    by simp
qed

section \<open>Privileged ports\<close>

text \<open>
  C6.  The \<^verbatim>\<open>privileged\<close> issues of the finished list are, one for one, the bindings with
  \<open>0 < HostPort < 1024\<close>: each such binding has its own issue, of severity \<^verbatim>\<open>warning\<close>,
  whatever the grouping stage found.
\<close>

theorem analyze_privileged_per_binding:
  assumes "only_parse_errors r"
  shows
    "mset (filter (\<lambda>i. Type i = ''privileged'') (Issues (analyze ks r)))
       = mset (map privileged_issue
                 (filter (\<lambda>b. 0 < HostPort b \<and> HostPort b < 1024) (PortBindings r))) \<and>
     Type (privileged_issue b) = ''privileged'' \<and>
     Severity (privileged_issue b) = ''warning'' \<and>
     Port (privileged_issue b) = HostPort b \<and>
     Bindings (privileged_issue b) = [b]"
proof -
  have "filter (\<lambda>i. Type i = ''privileged'') (collect_issues ks r)
          = map privileged_issue
              (filter (\<lambda>b. 0 < HostPort b \<and> HostPort b < 1024) (PortBindings r))"
    using assms
    by (simp add: collect_issues_eq Let_def filter_type_prior filter_type_stage1
                  filter_type_common filter_privileged_map)
  then have "mset (filter (\<lambda>i. Type i = ''privileged'') (Issues (analyze ks r)))
       = mset (map privileged_issue
                 (filter (\<lambda>b. 0 < HostPort b \<and> HostPort b < 1024) (PortBindings r)))"
    using mset_filter_analyze [of "\<lambda>i. Type i = ''privileged''" ks r] by (simp only:)
  moreover have "Type (privileged_issue b) = ''privileged'' \<and>
     Severity (privileged_issue b) = ''warning'' \<and>
     Port (privileged_issue b) = HostPort b \<and>
     Bindings (privileged_issue b) = [b]"
    by (simp add: privileged_issue_def)
  ultimately show ?thesis by (rule conjI)
qed

lemma privileged_example_bindings:
  "PortBindings (scanned ''.'' privileged_example) =
     [string_binding [] 80 80 ''web'' ''docker-compose.yml'' ''80:80'',
      string_binding [] 443 443 ''web'' ''docker-compose.yml'' ''443:443'']"
  by code_simp

lemma shared_privileged_example_bindings:
  "PortBindings (scanned ''.'' shared_privileged_example) =
     [string_binding [] 80 80 ''web1'' ''docker-compose.yml'' ''80:80'',
      string_binding [] 80 8080 ''web2'' ''docker-compose.yml'' ''80:8080'']"
  by code_simp

theorem analyze_privileged_per_binding_witness:
  "only_parse_errors (scanned ''.'' privileged_example) \<and>
   mset (filter (\<lambda>i. Type i = ''privileged'')
           (Issues (analyze [443, 80] (scanned ''.'' privileged_example))))
     = {#privileged_issue (string_binding [] 80 80 ''web'' ''docker-compose.yml'' ''80:80''),
         privileged_issue (string_binding [] 443 443 ''web'' ''docker-compose.yml'' ''443:443'')#} \<and>
   only_parse_errors (scanned ''.'' shared_privileged_example) \<and>
   mset (filter (\<lambda>i. Type i = ''privileged'')
           (Issues (analyze [80] (scanned ''.'' shared_privileged_example))))
     = {#privileged_issue (string_binding [] 80 80 ''web1'' ''docker-compose.yml'' ''80:80''),
         privileged_issue (string_binding [] 80 8080 ''web2'' ''docker-compose.yml'' ''80:8080'')#} \<and>
   filter (\<lambda>i. Type i = ''collision'')
       (Issues (analyze [80] (scanned ''.'' shared_privileged_example)))
     = [collision_issue 80
          [string_binding [] 80 80 ''web1'' ''docker-compose.yml'' ''80:80'',
           string_binding [] 80 8080 ''web2'' ''docker-compose.yml'' ''80:8080'']]"
proof -
  have p1: "only_parse_errors (scanned ''.'' privileged_example)"
    and p2: "only_parse_errors (scanned ''.'' shared_privileged_example)"
    by (rule scanned_only_parse_errors)+
  have col: "filter (\<lambda>i. Type i = ''collision'')
       (Issues (analyze [80] (scanned ''.'' shared_privileged_example)))
     = [collision_issue 80
          [string_binding [] 80 80 ''web1'' ''docker-compose.yml'' ''80:80'',
           string_binding [] 80 8080 ''web2'' ''docker-compose.yml'' ''80:8080'']]"
    by code_simp
  show ?thesis
    using p1 p2 col
      analyze_privileged_per_binding [OF p1, of "[443, 80]"]
      analyze_privileged_per_binding [OF p2, of "[80]"]
    by (simp add: privileged_example_bindings shared_privileged_example_bindings
                  string_binding_def)
qed

section \<open>Common ports\<close>

text \<open>
  C4.  The table has the ten ports 22, 25, 53, 80, 443, 3306, 5432, 6379, 8080 and 27017.
  For a binding on one of them: when it is a wildcard binding and the finished list has no
  \<^verbatim>\<open>collision\<close> issue for its port, its \<^verbatim>\<open>common_port\<close> issue, of severity \<^verbatim>\<open>info\<close>, is in the
  list; when the list has a \<^verbatim>\<open>collision\<close> issue for the port, the list has no
  \<^verbatim>\<open>common_port\<close> issue for that port; a binding that is not a wildcard has no
  \<^verbatim>\<open>common_port\<close> issue.
\<close>

theorem analyze_common_port:
  assumes "only_parse_errors r"
    and "b \<in> set (PortBindings r)"
    and "commonPorts (HostPort b) = Some svc"
  shows
    "dom commonPorts = {22, 25, 53, 80, 443, 3306, 5432, 6379, 8080, 27017} \<and>
     (wildcard b \<and>
      \<not> (\<exists>i\<in>set (Issues (analyze ks r)). Type i = ''collision'' \<and> Port i = HostPort b) \<longrightarrow>
        common_issue b svc \<in> set (Issues (analyze ks r))) \<and>
     ((\<exists>i\<in>set (Issues (analyze ks r)). Type i = ''collision'' \<and> Port i = HostPort b) \<longrightarrow>
        \<not> (\<exists>i\<in>set (Issues (analyze ks r)). Type i = ''common_port'' \<and> Port i = HostPort b)) \<and>
     (\<not> wildcard b \<longrightarrow>
        \<not> (\<exists>i\<in>set (Issues (analyze ks r)). Type i = ''common_port'' \<and> Bindings i = [b])) \<and>
     Type (common_issue b svc) = ''common_port'' \<and>
     Severity (common_issue b svc) = ''info'' \<and>
     Port (common_issue b svc) = HostPort b \<and>
     Bindings (common_issue b svc) = [b]"
proof -
  note chr = common_port_issues [OF assms(1), of ks]
  have t: "dom commonPorts = {22, 25, 53, 80, 443, 3306, 5432, 6379, 8080, 27017}"
    by (auto simp: commonPorts_def dom_def split: if_splits)
  have f: "Type (common_issue b svc) = ''common_port'' \<and>
     Severity (common_issue b svc) = ''info'' \<and>
     Port (common_issue b svc) = HostPort b \<and>
     Bindings (common_issue b svc) = [b]"
    by (simp add: common_issue_def)
  have a: "common_issue b svc \<in> set (Issues (analyze ks r))"
    if "wildcard b"
      and "\<not> (\<exists>i\<in>set (Issues (analyze ks r)). Type i = ''collision'' \<and> Port i = HostPort b)"
  proof -
    from that assms(2,3) f
    have "common_issue b svc \<in> {i \<in> set (Issues (analyze ks r)). Type i = ''common_port''}"
      unfolding chr by blast
    then show ?thesis by simp
  qed
  have b: "\<not> (\<exists>i\<in>set (Issues (analyze ks r)). Type i = ''common_port'' \<and> Port i = HostPort b)"
    if "\<exists>i\<in>set (Issues (analyze ks r)). Type i = ''collision'' \<and> Port i = HostPort b"
  proof
    assume "\<exists>i\<in>set (Issues (analyze ks r)). Type i = ''common_port'' \<and> Port i = HostPort b"
    then obtain i where i: "i \<in> {i \<in> set (Issues (analyze ks r)). Type i = ''common_port''}"
      and p: "Port i = HostPort b" by blast
    from i obtain b' svc' where
      "\<not> (\<exists>j\<in>set (Issues (analyze ks r)). Type j = ''collision'' \<and> Port j = HostPort b')"
      and "i = common_issue b' svc'"
      unfolding chr by blast
    with p that show False by (simp add: common_issue_def)
  qed
  have c: "\<not> (\<exists>i\<in>set (Issues (analyze ks r)). Type i = ''common_port'' \<and> Bindings i = [b])"
    if "\<not> wildcard b"
  proof
    assume "\<exists>i\<in>set (Issues (analyze ks r)). Type i = ''common_port'' \<and> Bindings i = [b]"
    then obtain i where i: "i \<in> {i \<in> set (Issues (analyze ks r)). Type i = ''common_port''}"
      and p: "Bindings i = [b]" by blast
    from i obtain b' svc' where "wildcard b'" and "i = common_issue b' svc'"
      unfolding chr by blast
    with p that show False by (simp add: common_issue_def)
  qed
  from t f a b c show ?thesis by blast
qed

lemma common_example_bindings:
  "PortBindings (scanned ''.'' common_example) =
     [string_binding [] 8080 80 ''proxy'' ''docker-compose.yml'' ''8080:80'',
      string_binding [] 80 80 ''web1'' ''docker-compose.yml'' ''80:80'',
      string_binding [] 80 8000 ''web2'' ''docker-compose.yml'' ''80:8000'',
      string_binding ''127.0.0.1'' 5432 5432 ''db'' ''docker-compose.yml'' ''127.0.0.1:5432:5432'']"
  by code_simp

lemma common_example_collisions:
  "map Port (filter (\<lambda>i. Type i = ''collision'')
      (Issues (analyze [80, 5432, 8080] (scanned ''.'' common_example)))) = [80]"
  by code_simp

theorem analyze_common_port_witness:
  "only_parse_errors (scanned ''.'' common_example) \<and>
   common_issue (string_binding [] 8080 80 ''proxy'' ''docker-compose.yml'' ''8080:80'') ''HTTP Alternate''
     \<in> set (Issues (analyze [80, 5432, 8080] (scanned ''.'' common_example))) \<and>
   \<not> (\<exists>i\<in>set (Issues (analyze [80, 5432, 8080] (scanned ''.'' common_example))).
         Type i = ''common_port'' \<and> Port i = 80) \<and>
   \<not> (\<exists>i\<in>set (Issues (analyze [80, 5432, 8080] (scanned ''.'' common_example))).
         Type i = ''common_port'' \<and>
         Bindings i = [string_binding ''127.0.0.1'' 5432 5432 ''db'' ''docker-compose.yml''
                         ''127.0.0.1:5432:5432''])"
proof -
  let ?r = "scanned ''.'' common_example"
  let ?out = "Issues (analyze [80, 5432, 8080] ?r)"
  let ?b1 = "string_binding [] 8080 80 ''proxy'' ''docker-compose.yml'' ''8080:80''"
  let ?b2 = "string_binding [] 80 80 ''web1'' ''docker-compose.yml'' ''80:80''"
  let ?b3 = "string_binding ''127.0.0.1'' 5432 5432 ''db'' ''docker-compose.yml'' ''127.0.0.1:5432:5432''"
  have prior: "only_parse_errors ?r" by (rule scanned_only_parse_errors)
  have m1: "?b1 \<in> set (PortBindings ?r)" and m2: "?b2 \<in> set (PortBindings ?r)"
    and m3: "?b3 \<in> set (PortBindings ?r)"
    by (simp_all add: common_example_bindings)
  have c1: "commonPorts (HostPort ?b1) = Some ''HTTP Alternate''"
    and c2: "commonPorts (HostPort ?b2) = Some ''HTTP''"
    and c3: "commonPorts (HostPort ?b3) = Some ''PostgreSQL''"
    by (simp_all add: commonPorts_def string_binding_def)
  have w: "wildcard ?b1" "wildcard ?b2" "\<not> wildcard ?b3"
    by (simp_all add: wildcard_def string_binding_def)
  have flagged: "(\<exists>i\<in>set ?out. Type i = ''collision'' \<and> Port i = p) = (p = 80)" for p
  proof -
    have "(\<exists>i\<in>set ?out. Type i = ''collision'' \<and> Port i = p)
            = (p \<in> set (map Port (filter (\<lambda>i. Type i = ''collision'') ?out)))"
      by auto
    then show ?thesis by (simp only: common_example_collisions) simp
  qed
  have h1: "\<not> (\<exists>i\<in>set ?out. Type i = ''collision'' \<and> Port i = HostPort ?b1)"
    by (simp only: flagged) (simp add: string_binding_def)
  have h2: "\<exists>i\<in>set ?out. Type i = ''collision'' \<and> Port i = HostPort ?b2"
    by (simp only: flagged) (simp add: string_binding_def)
  have p80: "HostPort ?b2 = 80" by (simp add: string_binding_def)
  note t1 = analyze_common_port [OF prior m1 c1, of "[80, 5432, 8080]"]
  note t2 = analyze_common_port [OF prior m2 c2, of "[80, 5432, 8080]", unfolded p80]
  note t3 = analyze_common_port [OF prior m3 c3, of "[80, 5432, 8080]"]
  from t1 w(1) h1 have r1: "common_issue ?b1 ''HTTP Alternate'' \<in> set ?out"
    by (elim conjE) (rule mp, assumption, rule conjI)
  from t2 h2 [unfolded p80]
  have r2: "\<not> (\<exists>i\<in>set ?out. Type i = ''common_port'' \<and> Port i = 80)"
    by (elim conjE) (rule mp)
  from t3 w(3) have r3: "\<not> (\<exists>i\<in>set ?out. Type i = ''common_port'' \<and> Bindings i = [?b3])"
    by (elim conjE) (rule mp)
  from prior r1 r2 r3 show ?thesis by (intro conjI)
qed

section \<open>Ordering\<close>

text \<open>
  C5.  The finished issue list is ordered by severity rank, then by port: of two entries
  the earlier has the smaller rank, or the same rank and a port that is not greater.  The
  ranks are \<^verbatim>\<open>error\<close> 0, \<^verbatim>\<open>warning\<close> 1, \<^verbatim>\<open>info\<close> 2, so every \<^verbatim>\<open>error\<close> entry stands
  before every \<^verbatim>\<open>warning\<close> entry, whatever their ports.
\<close>

theorem analyze_issue_order:
  "sorted_wrt (\<lambda>a b. rank a < rank b \<or> (rank a = rank b \<and> Port a \<le> Port b))
     (Issues (analyze ks r)) \<and>
   severityOrder ''error'' < severityOrder ''warning'' \<and>
   severityOrder ''warning'' < severityOrder ''info'' \<and>
   (\<forall>i j. i < length (Issues (analyze ks r)) \<longrightarrow> j < length (Issues (analyze ks r)) \<longrightarrow>
      Severity (Issues (analyze ks r) ! i) = ''error'' \<longrightarrow>
      Severity (Issues (analyze ks r) ! j) = ''warning'' \<longrightarrow> i < j)"
proof -
  let ?out = "Issues (analyze ks r)"
  have le: "(\<lambda>a b. \<not> issue_less b a)
              = (\<lambda>a b. rank a < rank b \<or> (rank a = rank b \<and> Port a \<le> Port b))"
    by (intro ext) (auto simp: issue_less_def rank_def)
  have sorted: "sorted_wrt (\<lambda>a b. rank a < rank b \<or> (rank a = rank b \<and> Port a \<le> Port b)) ?out"
    using analyze_issues_sorted [of ks r] by (simp only: le)
  have ranks: "severityOrder ''error'' < severityOrder ''warning'' \<and>
               severityOrder ''warning'' < severityOrder ''info''"
    by (simp add: severityOrder_def)
  have "i < j"
    if "i < length ?out" "j < length ?out"
      "Severity (?out ! i) = ''error''" "Severity (?out ! j) = ''warning''" for i j
  proof (rule ccontr)
    assume "\<not> i < j"
    moreover from that(3,4) have "i \<noteq> j" by auto
    ultimately have "j < i" by simp
    with sorted that(1)
    have "rank (?out ! j) < rank (?out ! i) \<or>
          (rank (?out ! j) = rank (?out ! i) \<and> Port (?out ! j) \<le> Port (?out ! i))"
      by (simp add: sorted_wrt_iff_nth_less)
    with that(3,4) show False
      by (simp add: rank_def severityOrder_def)
  qed
  with sorted ranks show ?thesis by blast
qed

lemma order_example_issues:
  "map (\<lambda>i. (Severity i, Type i, Port i))
     (Issues (analyze [9000, 80] (scanned ''.'' order_example))) =
     [(''error'', ''collision'', 80),
      (''warning'', ''privileged'', 80),
      (''warning'', ''privileged'', 80),
      (''warning'', ''potential_collision'', 9000)]"
  by code_simp

theorem analyze_issue_order_witness:
  "length (Issues (analyze [9000, 80] (scanned ''.'' order_example))) = 4 \<and>
   Severity (Issues (analyze [9000, 80] (scanned ''.'' order_example)) ! 3) = ''warning'' \<and>
   Port (Issues (analyze [9000, 80] (scanned ''.'' order_example)) ! 3) = 9000 \<and>
   Severity (Issues (analyze [9000, 80] (scanned ''.'' order_example)) ! 0) = ''error'' \<and>
   Port (Issues (analyze [9000, 80] (scanned ''.'' order_example)) ! 0) = 80 \<and>
   (0::nat) < 3"
proof -
  let ?out = "Issues (analyze [9000, 80] (scanned ''.'' order_example))"
  have len: "length ?out = 4"
    using arg_cong [OF order_example_issues, of length] by simp
  have n0: "(Severity (?out ! 0), Type (?out ! 0), Port (?out ! 0)) = (''error'', ''collision'', 80)"
    using arg_cong [OF order_example_issues, of "\<lambda>xs. xs ! 0"] len by (simp add: nth_map)
  have n3: "(Severity (?out ! 3), Type (?out ! 3), Port (?out ! 3))
              = (''warning'', ''potential_collision'', 9000)"
    using arg_cong [OF order_example_issues, of "\<lambda>xs. xs ! 3"] len by (simp add: nth_map)
  from len have i0: "0 < length ?out" and i3: "3 < length ?out" by simp_all
  from n0 have s0: "Severity (?out ! 0) = ''error''" by simp
  from n3 have s3: "Severity (?out ! 3) = ''warning''" by simp
  have "(0::nat) < 3"
    using analyze_issue_order [of "[9000, 80]" "scanned ''.'' order_example"] i0 i3 s0 s3
    by blast
  with len n0 n3 show ?thesis by simp
qed

section \<open>Protocol and grouping\<close>

text \<open>
  C8.  The port map of a scan is keyed by the host port alone (\<open>grouped\<close>).  The bindings
  of \<^verbatim>\<open>"53:53/tcp"\<close> and \<^verbatim>\<open>"53:53/udp"\<close>, of two services, keep their protocols, fall under
  the one key 53, and the scan reports a \<^verbatim>\<open>collision\<close> for port 53 that carries both.
\<close>

theorem tcp_udp_same_group:
  "grouped (scanned base files) \<and>
   PortBindings (scanned base (tcp_udp_example s1 s2 file)) =
     [proto_binding ''tcp'' s1 file ''53:53/tcp'', proto_binding ''udp'' s2 file ''53:53/udp''] \<and>
   visit_order [53] (PortMap (scanned base (tcp_udp_example s1 s2 file))) \<and>
   PortMap (scanned base (tcp_udp_example s1 s2 file)) 53 =
     Some [proto_binding ''tcp'' s1 file ''53:53/tcp'', proto_binding ''udp'' s2 file ''53:53/udp''] \<and>
   (\<exists>r. Scan base (tcp_udp_example s1 s2 file) [53] = Inr r \<and>
        Issues r =
          [collision_issue 53
             [proto_binding ''tcp'' s1 file ''53:53/tcp'', proto_binding ''udp'' s2 file ''53:53/udp''],
           privileged_issue (proto_binding ''tcp'' s1 file ''53:53/tcp''),
           privileged_issue (proto_binding ''udp'' s2 file ''53:53/udp'')])"
proof -
  let ?r = "scanned base (tcp_udp_example s1 s2 file)"
  have g: "grouped (scanned base files)"
    using scanned_parsed [of base files] by (simp add: parsed_state_def)
  have pb: "PortBindings ?r =
     [proto_binding ''tcp'' s1 file ''53:53/tcp'', proto_binding ''udp'' s2 file ''53:53/udp'']"
    by code_simp
  have order: "visit_order [53] (PortMap ?r)"
    by (rule scanned_visit_order) (auto simp: pb proto_binding_def)
  have look: "PortMap ?r 53 =
     Some [proto_binding ''tcp'' s1 file ''53:53/tcp'', proto_binding ''udp'' s2 file ''53:53/udp'']"
    by (rule scanned_lookup) (simp_all add: pb proto_binding_def)
  have iss: "Issues (analyze [53] ?r) =
          [collision_issue 53
             [proto_binding ''tcp'' s1 file ''53:53/tcp'', proto_binding ''udp'' s2 file ''53:53/udp''],
           privileged_issue (proto_binding ''tcp'' s1 file ''53:53/tcp''),
           privileged_issue (proto_binding ''udp'' s2 file ''53:53/udp'')]"
    by code_simp
  from g pb order look iss show ?thesis
    by (simp add: Scan_def)
qed

section \<open>Host port 0\<close>

text \<open>
  C2.  \<^verbatim>\<open>parsePort\<close> returns no binding whenever the declaration resolves to host port 0,
  so a binding it returns has a host port other than 0: \<^verbatim>\<open>"0:80"\<close>, the integer 0, and a
  long form whose \<^verbatim>\<open>published\<close> is absent, is 0, or is a string that reads as 0, all give
  none.  Hence every binding of a scan result, and every binding attached to one of its
  issues, has a host port other than 0, and the port map has no key 0.
\<close>

theorem host_port_zero_rejected:
  "(parsePort_fields port service path = Some b0 \<longrightarrow> HostPort b0 = 0 \<longrightarrow>
      parsePort port service path = None) \<and>
   (parsePort port service path = Some b \<longrightarrow> HostPort b \<noteq> 0) \<and>
   parsePort (PString ''0:80'') service path = None \<and>
   parsePort (PInt 0) service path = None \<and>
   (as_int (m ''published'') = None \<longrightarrow> as_string (m ''published'') = None \<longrightarrow>
      parsePort (PMap m) service path = None) \<and>
   (as_int (m ''published'') = Some 0 \<longrightarrow> parsePort (PMap m) service path = None) \<and>
   (as_int (m ''published'') = None \<longrightarrow> as_string (m ''published'') = Some s \<longrightarrow> Atoi s = 0 \<longrightarrow>
      parsePort (PMap m) service path = None) \<and>
   (Scan base files ks = Inr r \<longrightarrow>
      list_all (\<lambda>b. HostPort b \<noteq> 0) (PortBindings r) \<and>
      list_all (\<lambda>i. list_all (\<lambda>b. HostPort b \<noteq> 0) (Bindings i)) (Issues r) \<and>
      PortMap r 0 = None)"
proof -
  have a: "parsePort_fields port service path = Some b0 \<longrightarrow> HostPort b0 = 0 \<longrightarrow>
      parsePort port service path = None"
    by (simp add: parsePort_def)
  have b: "parsePort port service path = Some b \<longrightarrow> HostPort b \<noteq> 0"
    by (auto dest: parsePort_nonzero)
  have c: "parsePort (PString ''0:80'') service path = None"
    by code_simp
  have d: "parsePort (PInt 0) service path = None"
    by (simp add: parsePort_def parsePort_fields_def)
  have e: "as_int (m ''published'') = None \<longrightarrow> as_string (m ''published'') = None \<longrightarrow>
      parsePort (PMap m) service path = None"
    by (simp add: parsePort_def parsePort_fields_def Let_def split: option.splits)
  have f: "as_int (m ''published'') = Some 0 \<longrightarrow> parsePort (PMap m) service path = None"
    by (simp add: parsePort_def parsePort_fields_def Let_def split: option.splits)
  have g: "as_int (m ''published'') = None \<longrightarrow> as_string (m ''published'') = Some s \<longrightarrow> Atoi s = 0 \<longrightarrow>
      parsePort (PMap m) service path = None"
    by (simp add: parsePort_def parsePort_fields_def Let_def split: option.splits)
  have h: "list_all (\<lambda>b. HostPort b \<noteq> 0) (PortBindings r) \<and>
      list_all (\<lambda>i. list_all (\<lambda>b. HostPort b \<noteq> 0) (Bindings i)) (Issues r) \<and>
      PortMap r 0 = None"
    if "Scan base files ks = Inr r"
  proof -
    let ?p = "scanned base files"
    from that have r: "r = analyze ks ?p" by (simp add: Scan_def)
    have st: "parsed_state ?p" by (rule scanned_parsed)
    then have nz: "list_all (\<lambda>b. HostPort b \<noteq> 0) (PortBindings ?p)" and gr: "grouped ?p"
      by (simp_all add: parsed_state_def)
    have "\<forall>i\<in>set (Issues r). \<forall>b\<in>set (Bindings i). HostPort b \<noteq> 0"
    proof (intro ballI)
      fix i b assume "i \<in> set (Issues r)" and bi: "b \<in> set (Bindings i)"
      then have "i \<in> set (collect_issues ks ?p)" by (simp add: r set_analyze)
      with st have "set (Bindings i) \<subseteq> set (PortBindings ?p)"
        by (rule collect_issues_bindings)
      with bi nz show "HostPort b \<noteq> 0" by (auto simp: list_all_iff)
    qed
    then have "list_all (\<lambda>i. list_all (\<lambda>b. HostPort b \<noteq> 0) (Bindings i)) (Issues r)"
      by (simp add: list_all_iff)
    moreover from gr nz have "PortMap r 0 = None"
      by (simp add: r PortMap_analyze grouped_zero)
    moreover from nz have "list_all (\<lambda>b. HostPort b \<noteq> 0) (PortBindings r)"
      by (simp add: r PortBindings_analyze)
    ultimately show ?thesis by simp
  qed
  from a b c d e f g h show ?thesis by blast
qed

lemma zero_example_bindings:
  "PortBindings (scanned ''.'' zero_example) =
     [binding_8080_80 ''a'' ''docker-compose.yml'', binding_8080_80 ''b'' ''docker-compose.yml'']"
  by code_simp

theorem host_port_zero_rejected_witness:
  "parsePort_fields (PString ''0:80'') ''a'' ''f'' =
     Some \<lparr>HostPort = 0, ContainerPort = 80, Protocol = ''tcp'', HostIP = [],
           Service = ''a'', File = ''f'', Original = ''0:80''\<rparr> \<and>
   parsePort (PString ''0:80'') ''a'' ''f'' = None \<and>
   parsePort (PString ''8080:80'') ''a'' ''f'' = Some (binding_8080_80 ''a'' ''f'') \<and>
   HostPort (binding_8080_80 ''a'' ''f'') \<noteq> 0 \<and>
   parsePort (PMap [''target'' \<mapsto> YInt 80]) ''a'' ''f'' = None \<and>
   parsePort (PMap [''target'' \<mapsto> YInt 80, ''published'' \<mapsto> YInt 0]) ''a'' ''f'' = None \<and>
   parsePort (PMap [''target'' \<mapsto> YInt 80, ''published'' \<mapsto> YString ''0'']) ''a'' ''f'' = None \<and>
   Scan ''.'' zero_example [8080] = Inr (analyze [8080] (scanned ''.'' zero_example)) \<and>
   PortBindings (analyze [8080] (scanned ''.'' zero_example)) =
     [binding_8080_80 ''a'' ''docker-compose.yml'', binding_8080_80 ''b'' ''docker-compose.yml''] \<and>
   list_all (\<lambda>i. list_all (\<lambda>b. HostPort b \<noteq> 0) (Bindings i))
     (Issues (analyze [8080] (scanned ''.'' zero_example))) \<and>
   PortMap (analyze [8080] (scanned ''.'' zero_example)) 0 = None"
proof -
  let ?b0 = "\<lparr>HostPort = 0, ContainerPort = 80, Protocol = ''tcp'', HostIP = [],
           Service = ''a'', File = ''f'', Original = ''0:80''\<rparr>"
  let ?m1 = "[''target'' \<mapsto> YInt 80]"
  let ?m2 = "[''target'' \<mapsto> YInt 80, ''published'' \<mapsto> YInt 0]"
  let ?m3 = "[''target'' \<mapsto> YInt 80, ''published'' \<mapsto> YString ''0'']"
  have f0: "parsePort_fields (PString ''0:80'') ''a'' ''f'' = Some ?b0"
    by code_simp
  have z0: "HostPort ?b0 = 0" by simp
  have p1: "parsePort (PString ''8080:80'') ''a'' ''f'' = Some (binding_8080_80 ''a'' ''f'')"
    by code_simp
  have m1: "as_int (?m1 ''published'') = None" "as_string (?m1 ''published'') = None"
    by (simp_all add: as_int_def as_string_def)
  have m2: "as_int (?m2 ''published'') = Some 0"
    by (simp add: as_int_def)
  have m3: "as_int (?m3 ''published'') = None" "as_string (?m3 ''published'') = Some ''0''"
    by (simp_all add: as_int_def as_string_def)
  have a0: "Atoi ''0'' = 0" by code_simp
  have sc: "Scan ''.'' zero_example [8080] = Inr (analyze [8080] (scanned ''.'' zero_example))"
    by (simp add: Scan_def)
  note t0 = host_port_zero_rejected
              [where port = "PString ''0:80''" and service = "''a''" and path = "''f''"
                 and ?b0.0 = ?b0 and m = ?m1]
  note t1 = host_port_zero_rejected
              [where port = "PString ''8080:80''" and service = "''a''" and path = "''f''"
                 and b = "binding_8080_80 ''a'' ''f''" and m = ?m2]
  note t2 = host_port_zero_rejected
              [where service = "''a''" and path = "''f''" and m = ?m3 and s = "''0''"
                 and base = "''.''" and files = zero_example and ks = "[8080]"
                 and r = "analyze [8080] (scanned ''.'' zero_example)"]
  from t0 f0 z0 m1 have r0: "parsePort (PString ''0:80'') ''a'' ''f'' = None"
    and r1: "parsePort (PMap ?m1) ''a'' ''f'' = None"
    by blast+
  from t1 p1 m2 have r2: "HostPort (binding_8080_80 ''a'' ''f'') \<noteq> 0"
    and r3: "parsePort (PMap ?m2) ''a'' ''f'' = None"
    by blast+
  from t2 m3 a0 sc have r4: "parsePort (PMap ?m3) ''a'' ''f'' = None"
    and r5: "list_all (\<lambda>i. list_all (\<lambda>b. HostPort b \<noteq> 0) (Bindings i))
               (Issues (analyze [8080] (scanned ''.'' zero_example)))"
    and r6: "PortMap (analyze [8080] (scanned ''.'' zero_example)) 0 = None"
    by blast+
  have pb: "PortBindings (analyze [8080] (scanned ''.'' zero_example)) =
     [binding_8080_80 ''a'' ''docker-compose.yml'', binding_8080_80 ''b'' ''docker-compose.yml'']"
    by (simp add: PortBindings_analyze zero_example_bindings)
  from f0 r0 p1 r2 r1 r3 r4 sc pb r5 r6 show ?thesis by (intro conjI)
qed

section \<open>Files that cannot be parsed\<close>

text \<open>
  C9.  \<^verbatim>\<open>Scan\<close> returns a result whatever the files hold.  When reading or unmarshalling
  one file fails, the result has a \<^verbatim>\<open>parse_error\<close> issue of severity \<^verbatim>\<open>warning\<close> for that
  file, its bindings are those of the other files, and it is otherwise the result of
  scanning the other files: the same port map, and the same issues with that one issue
  added.  The bindings are analysed all the same: every privileged binding has its
  \<^verbatim>\<open>privileged\<close> issue, every port of the port map has the grouping issue of its group,
  the \<^verbatim>\<open>common_port\<close> issues are those of the wildcard bindings on table ports without a
  \<^verbatim>\<open>collision\<close>, and the list is sorted.
\<close>

theorem scan_continues_after_bad_file:
  assumes "content = ReadFails err \<or> content = UnmarshalFails err"
  shows
    "\<exists>r r'. Scan base (before @ (f, content) # after) ks = Inr r \<and>
            Scan base (before @ after) ks = Inr r' \<and>
            parse_error_issue f err \<in> set (Issues r) \<and>
            Type (parse_error_issue f err) = ''parse_error'' \<and>
            Severity (parse_error_issue f err) = ''warning'' \<and>
            PortBindings r = PortBindings r' \<and>
            PortMap r = PortMap r' \<and>
            mset (Issues r) = add_mset (parse_error_issue f err) (mset (Issues r')) \<and>
            PortBindings r = concat (map file_bindings (before @ after)) \<and>
            mset (filter (\<lambda>i. Type i = ''privileged'') (Issues r))
              = mset (map privileged_issue
                        (filter (\<lambda>b. 0 < HostPort b \<and> HostPort b < 1024) (PortBindings r))) \<and>
            (visit_order ks (PortMap r) \<longrightarrow>
               (\<forall>p bs. PortMap r p = Some bs \<longrightarrow>
                  filter (\<lambda>i. (Type i = ''collision'' \<or> Type i = ''potential_collision'') \<and> Port i = p)
                    (Issues r) = group_issues p bs)) \<and>
            {i \<in> set (Issues r). Type i = ''common_port''}
              = {i. \<exists>b svc. b \<in> set (PortBindings r) \<and> commonPorts (HostPort b) = Some svc \<and>
                     wildcard b \<and>
                     \<not> (\<exists>j\<in>set (Issues r). Type j = ''collision'' \<and> Port j = HostPort b) \<and>
                     i = common_issue b svc} \<and>
            sorted_wrt (\<lambda>a b. rank a < rank b \<or> (rank a = rank b \<and> Port a \<le> Port b)) (Issues r)"
proof -
  let ?p = "scanned base (before @ (f, content) # after)"
  let ?p' = "scanned base (before @ after)"
  let ?r = "analyze ks ?p"
  let ?r' = "analyze ks ?p'"
  let ?e = "parse_error_issue f err"
  from assms have fb: "file_bindings (f, content) = []"
    and fe: "file_errors (f, content) = [?e]"
    by (auto simp: file_bindings_def file_errors_def)
  have prior: "only_parse_errors ?p"
    by (rule scanned_only_parse_errors)
  have pb0: "PortBindings ?p = PortBindings ?p'"
    by (simp add: PortBindings_scanned fb)
  have "grouped ?p" and "grouped ?p'"
    using scanned_parsed [of base "before @ (f, content) # after"]
          scanned_parsed [of base "before @ after"]
    by (simp_all add: parsed_state_def)
  then have pm0: "PortMap ?p = PortMap ?p'"
    using pb0 by (rule grouped_PortMap_eq)
  have iss: "mset (Issues ?p) = add_mset ?e (mset (Issues ?p'))"
    by (simp add: Issues_scanned fe)
  have ty: "Type ?e \<noteq> ''collision''"
    by (simp add: parse_error_issue_def)
  have "mset (collect_issues ks ?p) = add_mset ?e (mset (collect_issues ks ?p'))"
    using pb0 pm0 iss ty by (rule collect_issues_extra)
  then have out: "mset (Issues ?r) = add_mset ?e (mset (Issues ?r'))"
    by (simp add: analyze_def mset_sort_Slice)
  then have "set (Issues ?r) = insert ?e (set (Issues ?r'))"
    by (metis set_mset_add_mset_insert set_mset_mset)
  then have mem: "?e \<in> set (Issues ?r)"
    by simp
  have k1: "Type ?e = ''parse_error''" and k2: "Severity ?e = ''warning''"
    by (simp_all add: parse_error_issue_def)
  have s1: "Scan base (before @ (f, content) # after) ks = Inr ?r"
    and s2: "Scan base (before @ after) ks = Inr ?r'"
    by (simp_all add: Scan_def)
  have pb: "PortBindings ?r = PortBindings ?r'"
    by (simp add: PortBindings_analyze pb0)
  have pm: "PortMap ?r = PortMap ?r'"
    by (simp add: PortMap_analyze pm0)
  have gathered: "PortBindings ?r = concat (map file_bindings (before @ after))"
    by (simp add: PortBindings_analyze PortBindings_scanned fb)
  have "filter (\<lambda>i. Type i = ''privileged'') (collect_issues ks ?p)
          = map privileged_issue
              (filter (\<lambda>b. 0 < HostPort b \<and> HostPort b < 1024) (PortBindings ?p))"
    using prior by (rule privileged_issues_collect)
  then have priv: "mset (filter (\<lambda>i. Type i = ''privileged'') (Issues ?r))
              = mset (map privileged_issue
                        (filter (\<lambda>b. 0 < HostPort b \<and> HostPort b < 1024) (PortBindings ?r)))"
    using mset_filter_analyze [of "\<lambda>i. Type i = ''privileged''" ks ?p]
    by (simp only: PortBindings_analyze)
  have grp: "visit_order ks (PortMap ?r) \<longrightarrow>
               (\<forall>p bs. PortMap ?r p = Some bs \<longrightarrow>
                  filter (\<lambda>i. (Type i = ''collision'' \<or> Type i = ''potential_collision'') \<and> Port i = p)
                    (Issues ?r) = group_issues p bs)"
    unfolding PortMap_analyze
    by (intro impI allI) (rule grouping_issues_both [OF _ prior])
  have com: "{i \<in> set (Issues ?r). Type i = ''common_port''}
              = {i. \<exists>b svc. b \<in> set (PortBindings ?r) \<and> commonPorts (HostPort b) = Some svc \<and>
                     wildcard b \<and>
                     \<not> (\<exists>j\<in>set (Issues ?r). Type j = ''collision'' \<and> Port j = HostPort b) \<and>
                     i = common_issue b svc}"
    unfolding PortBindings_analyze using prior by (rule common_port_issues)
  have srt: "sorted_wrt (\<lambda>a b. rank a < rank b \<or> (rank a = rank b \<and> Port a \<le> Port b)) (Issues ?r)"
    using analyze_issues_sorted [of ks ?p] by (simp only: rank_order_eq)
  have "Scan base (before @ (f, content) # after) ks = Inr ?r \<and>
            Scan base (before @ after) ks = Inr ?r' \<and>
            parse_error_issue f err \<in> set (Issues ?r) \<and>
            Type (parse_error_issue f err) = ''parse_error'' \<and>
            Severity (parse_error_issue f err) = ''warning'' \<and>
            PortBindings ?r = PortBindings ?r' \<and>
            PortMap ?r = PortMap ?r' \<and>
            mset (Issues ?r) = add_mset (parse_error_issue f err) (mset (Issues ?r')) \<and>
            PortBindings ?r = concat (map file_bindings (before @ after)) \<and>
            mset (filter (\<lambda>i. Type i = ''privileged'') (Issues ?r))
              = mset (map privileged_issue
                        (filter (\<lambda>b. 0 < HostPort b \<and> HostPort b < 1024) (PortBindings ?r))) \<and>
            (visit_order ks (PortMap ?r) \<longrightarrow>
               (\<forall>p bs. PortMap ?r p = Some bs \<longrightarrow>
                  filter (\<lambda>i. (Type i = ''collision'' \<or> Type i = ''potential_collision'') \<and> Port i = p)
                    (Issues ?r) = group_issues p bs)) \<and>
            {i \<in> set (Issues ?r). Type i = ''common_port''}
              = {i. \<exists>b svc. b \<in> set (PortBindings ?r) \<and> commonPorts (HostPort b) = Some svc \<and>
                     wildcard b \<and>
                     \<not> (\<exists>j\<in>set (Issues ?r). Type j = ''collision'' \<and> Port j = HostPort b) \<and>
                     i = common_issue b svc} \<and>
            sorted_wrt (\<lambda>a b. rank a < rank b \<or> (rank a = rank b \<and> Port a \<le> Port b)) (Issues ?r)"
    using s1 s2 mem k1 k2 pb pm out gathered priv grp com srt by (intro conjI)
  then show ?thesis by (intro exI)
qed

lemma bad_file_example_bindings:
  "PortBindings (scanned ''.'' bad_file_example) =
     [string_binding [] 80 80 ''web1'' ''docker-compose.yml'' ''80:80'',
      string_binding [] 80 8000 ''web2'' ''docker-compose.yml'' ''80:8000'',
      string_binding [] 8080 80 ''proxy'' ''docker-compose.yml'' ''8080:80'']"
  by code_simp

lemma bad_file_example_issues:
  "Issues (analyze [8080, 80] (scanned ''.'' bad_file_example)) =
     [collision_issue 80
        [string_binding [] 80 80 ''web1'' ''docker-compose.yml'' ''80:80'',
         string_binding [] 80 8000 ''web2'' ''docker-compose.yml'' ''80:8000''],
      parse_error_issue ''compose.yml'' ''yaml: did not find expected key'',
      privileged_issue (string_binding [] 80 80 ''web1'' ''docker-compose.yml'' ''80:80''),
      privileged_issue (string_binding [] 80 8000 ''web2'' ''docker-compose.yml'' ''80:8000''),
      common_issue (string_binding [] 8080 80 ''proxy'' ''docker-compose.yml'' ''8080:80'')
        ''HTTP Alternate'']"
  by code_simp

theorem scan_continues_after_bad_file_witness:
  "(UnmarshalFails ''yaml: did not find expected key'' = ReadFails ''yaml: did not find expected key'' \<or>
    UnmarshalFails ''yaml: did not find expected key'' = UnmarshalFails ''yaml: did not find expected key'') \<and>
   (\<exists>r. Scan ''.'' bad_file_example [8080, 80] = Inr r \<and>
        visit_order [8080, 80] (PortMap r) \<and>
        PortMap r 80 =
          Some [string_binding [] 80 80 ''web1'' ''docker-compose.yml'' ''80:80'',
                string_binding [] 80 8000 ''web2'' ''docker-compose.yml'' ''80:8000''] \<and>
        parse_error_issue ''compose.yml'' ''yaml: did not find expected key'' \<in> set (Issues r) \<and>
        filter (\<lambda>i. (Type i = ''collision'' \<or> Type i = ''potential_collision'') \<and> Port i = 80)
            (Issues r)
          = [collision_issue 80
               [string_binding [] 80 80 ''web1'' ''docker-compose.yml'' ''80:80'',
                string_binding [] 80 8000 ''web2'' ''docker-compose.yml'' ''80:8000'']] \<and>
        mset (filter (\<lambda>i. Type i = ''privileged'') (Issues r))
          = {#privileged_issue (string_binding [] 80 80 ''web1'' ''docker-compose.yml'' ''80:80''),
              privileged_issue (string_binding [] 80 8000 ''web2'' ''docker-compose.yml'' ''80:8000'')#} \<and>
        PortBindings r =
          [string_binding [] 80 80 ''web1'' ''docker-compose.yml'' ''80:80'',
           string_binding [] 80 8000 ''web2'' ''docker-compose.yml'' ''80:8000'',
           string_binding [] 8080 80 ''proxy'' ''docker-compose.yml'' ''8080:80''] \<and>
        Issues r =
          [collision_issue 80
             [string_binding [] 80 80 ''web1'' ''docker-compose.yml'' ''80:80'',
              string_binding [] 80 8000 ''web2'' ''docker-compose.yml'' ''80:8000''],
           parse_error_issue ''compose.yml'' ''yaml: did not find expected key'',
           privileged_issue (string_binding [] 80 80 ''web1'' ''docker-compose.yml'' ''80:80''),
           privileged_issue (string_binding [] 80 8000 ''web2'' ''docker-compose.yml'' ''80:8000''),
           common_issue (string_binding [] 8080 80 ''proxy'' ''docker-compose.yml'' ''8080:80'')
             ''HTTP Alternate''])"
proof -
  let ?err = "''yaml: did not find expected key''"
  let ?rest = "[(''docker-compose.yml'',
       Services [(''web1'', [PString ''80:80'']),
                 (''web2'', [PString ''80:8000'']),
                 (''proxy'', [PString ''8080:80''])])]"
  let ?b1 = "string_binding [] 80 80 ''web1'' ''docker-compose.yml'' ''80:80''"
  let ?b2 = "string_binding [] 80 8000 ''web2'' ''docker-compose.yml'' ''80:8000''"
  let ?b3 = "string_binding [] 8080 80 ''proxy'' ''docker-compose.yml'' ''8080:80''"
  let ?a = "analyze [8080, 80] (scanned ''.'' bad_file_example)"
  have h: "UnmarshalFails ?err = ReadFails ?err \<or> UnmarshalFails ?err = UnmarshalFails ?err"
    by simp
  have ex: "[] @ (''compose.yml'', UnmarshalFails ?err) # ?rest = bad_file_example"
    by (simp add: bad_file_example_def)
  have order: "visit_order [8080, 80] (PortMap ?a)"
    unfolding PortMap_analyze
    by (rule scanned_visit_order) (auto simp: bad_file_example_bindings string_binding_def)
  have look: "PortMap ?a 80 = Some [?b1, ?b2]"
    unfolding PortMap_analyze
    by (rule scanned_lookup) (simp_all add: bad_file_example_bindings string_binding_def)
  have g: "group_issues 80 [?b1, ?b2] = [collision_issue 80 [?b1, ?b2]]"
    by (simp add: group_issues_def wildcard_def string_binding_def)
  from scan_continues_after_bad_file
         [OF h, of "''.''" "[]" "''compose.yml''" ?rest "[8080, 80]", unfolded ex]
  obtain r where
    r: "Scan ''.'' bad_file_example [8080, 80] = Inr r"
    and mem: "parse_error_issue ''compose.yml'' ?err \<in> set (Issues r)"
    and priv: "mset (filter (\<lambda>i. Type i = ''privileged'') (Issues r))
              = mset (map privileged_issue
                        (filter (\<lambda>b. 0 < HostPort b \<and> HostPort b < 1024) (PortBindings r)))"
    and grp: "visit_order [8080, 80] (PortMap r) \<longrightarrow>
               (\<forall>p bs. PortMap r p = Some bs \<longrightarrow>
                  filter (\<lambda>i. (Type i = ''collision'' \<or> Type i = ''potential_collision'') \<and> Port i = p)
                    (Issues r) = group_issues p bs)"
    by (elim exE conjE) (rule that; assumption)
  from r have ra: "r = ?a" by (simp add: Scan_def)
  have pbs: "PortBindings r = [?b1, ?b2, ?b3]"
    by (simp add: ra PortBindings_analyze bad_file_example_bindings)
  from order look have o: "visit_order [8080, 80] (PortMap r)" and l: "PortMap r 80 = Some [?b1, ?b2]"
    by (simp_all only: ra)
  from grp o have "\<forall>p bs. PortMap r p = Some bs \<longrightarrow>
      filter (\<lambda>i. (Type i = ''collision'' \<or> Type i = ''potential_collision'') \<and> Port i = p)
        (Issues r) = group_issues p bs"
    by (rule mp)
  then have "PortMap r 80 = Some [?b1, ?b2] \<longrightarrow>
      filter (\<lambda>i. (Type i = ''collision'' \<or> Type i = ''potential_collision'') \<and> Port i = 80)
        (Issues r) = group_issues 80 [?b1, ?b2]"
    by (elim allE)
  from this l
  have col: "filter (\<lambda>i. (Type i = ''collision'' \<or> Type i = ''potential_collision'') \<and> Port i = 80)
               (Issues r) = [collision_issue 80 [?b1, ?b2]]"
    unfolding g by (rule mp)
  from priv have pr: "mset (filter (\<lambda>i. Type i = ''privileged'') (Issues r))
          = {#privileged_issue ?b1, privileged_issue ?b2#}"
    unfolding pbs by (simp add: string_binding_def)
  have all: "Issues r = [collision_issue 80 [?b1, ?b2],
           parse_error_issue ''compose.yml'' ?err,
           privileged_issue ?b1, privileged_issue ?b2,
           common_issue ?b3 ''HTTP Alternate'']"
    unfolding ra by (rule bad_file_example_issues)
  from r o l mem col pr pbs all have "Scan ''.'' bad_file_example [8080, 80] = Inr r \<and>
        visit_order [8080, 80] (PortMap r) \<and>
        PortMap r 80 = Some [?b1, ?b2] \<and>
        parse_error_issue ''compose.yml'' ?err \<in> set (Issues r) \<and>
        filter (\<lambda>i. (Type i = ''collision'' \<or> Type i = ''potential_collision'') \<and> Port i = 80)
            (Issues r) = [collision_issue 80 [?b1, ?b2]] \<and>
        mset (filter (\<lambda>i. Type i = ''privileged'') (Issues r))
          = {#privileged_issue ?b1, privileged_issue ?b2#} \<and>
        PortBindings r = [?b1, ?b2, ?b3] \<and>
        Issues r = [collision_issue 80 [?b1, ?b2],
           parse_error_issue ''compose.yml'' ?err,
           privileged_issue ?b1, privileged_issue ?b2,
           common_issue ?b3 ''HTTP Alternate'']"
    by (intro conjI)
  then have "\<exists>r. Scan ''.'' bad_file_example [8080, 80] = Inr r \<and>
        visit_order [8080, 80] (PortMap r) \<and>
        PortMap r 80 = Some [?b1, ?b2] \<and>
        parse_error_issue ''compose.yml'' ?err \<in> set (Issues r) \<and>
        filter (\<lambda>i. (Type i = ''collision'' \<or> Type i = ''potential_collision'') \<and> Port i = 80)
            (Issues r) = [collision_issue 80 [?b1, ?b2]] \<and>
        mset (filter (\<lambda>i. Type i = ''privileged'') (Issues r))
          = {#privileged_issue ?b1, privileged_issue ?b2#} \<and>
        PortBindings r = [?b1, ?b2, ?b3] \<and>
        Issues r = [collision_issue 80 [?b1, ?b2],
           parse_error_issue ''compose.yml'' ?err,
           privileged_issue ?b1, privileged_issue ?b2,
           common_issue ?b3 ''HTTP Alternate'']"
    by (intro exI)
  with h show ?thesis by (rule conjI)
qed

section \<open>Profile overlay\<close>

text \<open>
  C3.  A profile conflict is to be reported for a host port exactly when more than one
  active service claims it.  The code reports one for a port that a single service
  claims.  The service \<^verbatim>\<open>dns\<close> has no profile and publishes \<^verbatim>\<open>"53:53/tcp"\<close> and
  \<^verbatim>\<open>"53:53/udp"\<close>: with the profile \<^verbatim>\<open>dev\<close> active, \<^verbatim>\<open>DetectPortConflicts\<close> returns a
  conflict for \<^verbatim>\<open>53\<close> whose two entries are both \<^verbatim>\<open>dns\<close>, and \<^verbatim>\<open>runScan\<close> makes it the
  issue ``Profile conflict on port 53: multiple services''.  The service \<^verbatim>\<open>web\<close> has one
  declaration, \<^verbatim>\<open>"8080:80"\<close>, and the profiles \<^verbatim>\<open>dev\<close> and \<^verbatim>\<open>tools\<close>: with both active it
  is reported as in conflict with itself.
\<close>

theorem profile_conflict_one_service:
  "visit_order [''9090'', ''53''] (portServices_of dns_example [''dev'']) \<and>
   DetectPortConflicts [''9090'', ''53''] dns_example [''dev''] =
     [\<lparr>Port_pc = ''53'',
       Services_pc =
         [\<lparr>Service_si = ''dns'', Profile_si = ''default'', Port_si = ''53:53/tcp''\<rparr>,
          \<lparr>Service_si = ''dns'', Profile_si = ''default'', Port_si = ''53:53/udp''\<rparr>]\<rparr>] \<and>
   profile_issues [''9090'', ''53''] dns_example [''dev''] =
     [\<lparr>Severity = ''error'', Type = ''profile_collision'', Port = 0,
       Description = ''Profile conflict on port 53: multiple services'', Bindings = []\<rparr>] \<and>
   claiming_services dns_example [''dev''] ''53'' = [''dns''] \<and>
   \<not> 1 < length (claiming_services dns_example [''dev''] ''53'') \<and>
   visit_order [''8080''] (portServices_of two_profiles_example [''dev'', ''tools'']) \<and>
   DetectPortConflicts [''8080''] two_profiles_example [''dev'', ''tools''] =
     [\<lparr>Port_pc = ''8080'',
       Services_pc =
         [\<lparr>Service_si = ''web'', Profile_si = ''dev'', Port_si = ''8080:80''\<rparr>,
          \<lparr>Service_si = ''web'', Profile_si = ''tools'', Port_si = ''8080:80''\<rparr>]\<rparr>] \<and>
   claiming_services two_profiles_example [''dev'', ''tools''] ''8080'' = [''web''] \<and>
   \<not> 1 < length (claiming_services two_profiles_example [''dev'', ''tools''] ''8080'')"
proof -
  have claims: "map fst (active_claims dns_example [''dev'']) = [''53'', ''53'', ''9090'']"
    by code_simp
  have "fst ` set (active_claims dns_example [''dev'']) = {''53'', ''9090''}"
    using arg_cong [OF claims, of set] by simp
  then have order: "visit_order [''9090'', ''53''] (portServices_of dns_example [''dev''])"
    by (auto simp: visit_order_def dom_portServices_of)
  have det: "DetectPortConflicts [''9090'', ''53''] dns_example [''dev''] =
     [\<lparr>Port_pc = ''53'',
       Services_pc =
         [\<lparr>Service_si = ''dns'', Profile_si = ''default'', Port_si = ''53:53/tcp''\<rparr>,
          \<lparr>Service_si = ''dns'', Profile_si = ''default'', Port_si = ''53:53/udp''\<rparr>]\<rparr>]"
    by code_simp
  have iss: "profile_issues [''9090'', ''53''] dns_example [''dev''] =
     [\<lparr>Severity = ''error'', Type = ''profile_collision'', Port = 0,
       Description = ''Profile conflict on port 53: multiple services'', Bindings = []\<rparr>]"
    by code_simp
  have one: "claiming_services dns_example [''dev''] ''53'' = [''dns'']"
    by code_simp
  have claims2: "map fst (active_claims two_profiles_example [''dev'', ''tools'']) = [''8080'', ''8080'']"
    by code_simp
  have "fst ` set (active_claims two_profiles_example [''dev'', ''tools'']) = {''8080''}"
    using arg_cong [OF claims2, of set] by simp
  then have order2: "visit_order [''8080''] (portServices_of two_profiles_example [''dev'', ''tools''])"
    by (auto simp: visit_order_def dom_portServices_of)
  have det2: "DetectPortConflicts [''8080''] two_profiles_example [''dev'', ''tools''] =
     [\<lparr>Port_pc = ''8080'',
       Services_pc =
         [\<lparr>Service_si = ''web'', Profile_si = ''dev'', Port_si = ''8080:80''\<rparr>,
          \<lparr>Service_si = ''web'', Profile_si = ''tools'', Port_si = ''8080:80''\<rparr>]\<rparr>]"
    by code_simp
  have one2: "claiming_services two_profiles_example [''dev'', ''tools''] ''8080'' = [''web'']"
    by code_simp
  from order det iss one order2 det2 one2 show ?thesis by simp
qed

text \<open>
  On the example with two services the code reports what is expected: \<^verbatim>\<open>serviceA\<close> under
  \<^verbatim>\<open>dev\<close> and \<^verbatim>\<open>serviceB\<close> under no profile, both on host port 9090, give one conflict
  when \<^verbatim>\<open>dev\<close> is active, and none when no profile is.
\<close>

lemma overlay_example_conflicts:
  "DetectPortConflicts [''9090''] overlay_example [''dev''] =
     [\<lparr>Port_pc = ''9090'',
       Services_pc =
         [\<lparr>Service_si = ''serviceB'', Profile_si = ''default'', Port_si = ''9090:8080''\<rparr>,
          \<lparr>Service_si = ''serviceA'', Profile_si = ''dev'', Port_si = ''9090:80''\<rparr>]\<rparr>] \<and>
   length (profile_issues [''9090''] overlay_example [''dev'']) = 1 \<and>
   claiming_services overlay_example [''dev''] ''9090'' = [''serviceB'', ''serviceA''] \<and>
   DetectPortConflicts [''9090''] overlay_example [] = [] \<and>
   profile_issues [''9090''] overlay_example [] = [] \<and>
   claiming_services overlay_example [] ''9090'' = [''serviceB'']"
  by code_simp

end
